theory Spec2Isabelle
  imports Complex_Main "HOL-Library.Multiset" "HOL-Library.AList"
begin

section \<open>Common modelling conventions\<close>

text \<open>
  A Python \<open>str\<close> is a sequence of Unicode code points, so it is modelled as a list of
  natural numbers (Isabelle's \<open>char\<close> is a byte). Literal strings of the source are
  written as their code points, with the text given in a comment. Python floats that
  only carry literal constants or are compared and combined arithmetically are modelled
  as real numbers. Exceptions are values of the type \<open>exn\<close>; an operation that can
  raise returns \<open>exn + 'a\<close>.
\<close>

type_synonym pystr = "nat list"

datatype exn =
    HTTPException nat pystr  \<comment> \<open>status code, detail\<close>
  | PyError pystr pystr      \<comment> \<open>any other exception: type name, \<open>str(e)\<close>\<close>

text \<open>
  The code points for which Python's \<open>str.isspace\<close> holds; \<open>str.strip()\<close> without
  arguments and the regular-expression class \<open>\s\<close> on \<open>str\<close> patterns use the same set.
\<close>

definition py_isspace :: "nat \<Rightarrow> bool" where
  "py_isspace c \<longleftrightarrow>
     (9 \<le> c \<and> c \<le> 13) \<or> (28 \<le> c \<and> c \<le> 32) \<or> c = 133 \<or> c = 160 \<or> c = 5760 \<or>
     (8192 \<le> c \<and> c \<le> 8202) \<or> c = 8232 \<or> c = 8233 \<or> c = 8239 \<or> c = 8287 \<or> c = 12288"

definition strip :: "pystr \<Rightarrow> pystr" where
  "strip s = rev (dropWhile py_isspace (rev (dropWhile py_isspace s)))"

section \<open>Translation routes: language detection\<close>

text \<open>\<open>api/routes/translation.py\<close>, \<open>detect_language\<close>.\<close>

record detect_response =
  det_success :: bool
  det_text :: pystr
  detected_language :: pystr
  language_name :: pystr
  confidence :: real

definition is_cjk :: "nat \<Rightarrow> bool" where
  \<comment> \<open>the characters from U+4E00 to U+9FFF\<close>
  "is_cjk c \<longleftrightarrow> 0x4E00 \<le> c \<and> c \<le> 0x9FFF"

definition detail_empty_text :: pystr where
  \<comment> \<open>the detail of the 400 error: "text must not be empty", in Chinese\<close>
  "detail_empty_text = [25991, 26412, 19981, 33021, 20026, 31354]"

definition detect_language :: "pystr \<Rightarrow> exn + detect_response" where
  "detect_language text =
     (if text = [] \<or> strip text = [] then Inl (HTTPException 400 detail_empty_text)
      else if list_ex is_cjk text then
        Inr \<lparr>det_success = True, det_text = text,
             detected_language = [122, 104],  \<comment> \<open>\<open>zh\<close>\<close>
             language_name = [67, 104, 105, 110, 101, 115, 101],  \<comment> \<open>\<open>Chinese\<close>\<close>
             confidence = 0.95\<rparr>
      else
        Inr \<lparr>det_success = True, det_text = text,
             detected_language = [101, 110],  \<comment> \<open>\<open>en\<close>\<close>
             language_name = [69, 110, 103, 108, 105, 115, 104],  \<comment> \<open>\<open>English\<close>\<close>
             confidence = 0.88\<rparr>)"

section \<open>WebSocket connection manager\<close>

text \<open>
  \<open>api/config.py\<close>, class \<open>ConnectionManager\<close>. A \<open>WebSocket\<close> handle belongs to the
  framework; what the manager sees of it is whether \<open>accept()\<close> and \<open>send_json()\<close>
  complete or raise, so a handle is a record of these two outcomes (\<open>None\<close>: the call
  completes) and a name. \<open>active_connections\<close> is a Python dict: an association list in
  insertion order, where assigning to an existing key keeps the key's position
  (\<open>AList.update\<close>) and \<open>del\<close> removes the entry (\<open>AList.delete\<close>). The messages that
  reach a client are the visible effect of a send; the operations return them as a list
  of (client id, message) pairs, in the order of sending. The manager runs on one
  cooperative thread; interleavings at the \<open>await\<close> points are not modelled.
\<close>

record websocket =
  ws_name :: nat
  ws_accept :: "exn option"
  ws_send_json :: "exn option"

record connection_manager =
  active_connections :: "(pystr \<times> websocket) list"
  connection_count :: int

definition manager_init :: connection_manager where
  "manager_init = \<lparr>active_connections = [], connection_count = 0\<rparr>"

text \<open>\<open>connect\<close>: \<open>Inl e\<close> means that \<open>accept()\<close> raised \<open>e\<close>, which propagates to the
  caller before the manager is touched.\<close>

definition connect :: "websocket \<Rightarrow> pystr \<Rightarrow> connection_manager \<Rightarrow> exn + connection_manager" where
  "connect ws client_id m =
     (case ws_accept ws of
        Some e \<Rightarrow> Inl e
      | None \<Rightarrow> Inr (m\<lparr>active_connections := AList.update client_id ws (active_connections m),
                       connection_count := connection_count m + 1\<rparr>))"

definition is_connected :: "pystr \<Rightarrow> connection_manager \<Rightarrow> bool" where
  "is_connected client_id m \<longleftrightarrow> map_of (active_connections m) client_id \<noteq> None"

definition disconnect :: "pystr \<Rightarrow> connection_manager \<Rightarrow> connection_manager" where
  "disconnect client_id m =
     (if is_connected client_id m
      then m\<lparr>active_connections := AList.delete client_id (active_connections m),
             connection_count := connection_count m - 1\<rparr>
      else m)"

text \<open>\<open>send_personal_message\<close> returns its boolean, the manager, and the messages delivered.\<close>

definition send_personal_message ::
  "'m \<Rightarrow> pystr \<Rightarrow> connection_manager \<Rightarrow> bool \<times> connection_manager \<times> (pystr \<times> 'm) list" where
  "send_personal_message message client_id m =
     (case map_of (active_connections m) client_id of
        Some ws \<Rightarrow>
          (case ws_send_json ws of
             None \<Rightarrow> (True, m, [(client_id, message)])
           | Some e \<Rightarrow> (False, disconnect client_id m, []))
      | None \<Rightarrow> (False, m, []))"

text \<open>The test \<open>if exclude_client_id and client_id == exclude_client_id\<close>: \<open>None\<close> and the
  empty string are both false in Python.\<close>

definition is_excluded :: "pystr option \<Rightarrow> pystr \<Rightarrow> bool" where
  "is_excluded exclude_client_id client_id \<longleftrightarrow>
     (case exclude_client_id of None \<Rightarrow> False | Some x \<Rightarrow> x \<noteq> [] \<and> client_id = x)"

text \<open>The loop of \<open>broadcast\<close> over \<open>active_connections.items()\<close>: it returns
  \<open>disconnected_clients\<close> and the messages delivered.\<close>

fun broadcast_loop ::
  "'m \<Rightarrow> pystr option \<Rightarrow> (pystr \<times> websocket) list \<Rightarrow> pystr list \<times> (pystr \<times> 'm) list" where
  "broadcast_loop message ex [] = ([], [])"
| "broadcast_loop message ex ((client_id, connection) # rest) =
     (if is_excluded ex client_id then broadcast_loop message ex rest
      else
        (case ws_send_json connection of
           None \<Rightarrow> (fst (broadcast_loop message ex rest),
                    (client_id, message) # snd (broadcast_loop message ex rest))
         | Some e \<Rightarrow> (client_id # fst (broadcast_loop message ex rest),
                      snd (broadcast_loop message ex rest))))"

definition broadcast ::
  "'m \<Rightarrow> pystr option \<Rightarrow> connection_manager \<Rightarrow> connection_manager \<times> (pystr \<times> 'm) list" where
  "broadcast message exclude_client_id m =
     (let r = broadcast_loop message exclude_client_id (active_connections m)
      in (fold disconnect (fst r) m, snd r))"

definition get_connection_count :: "connection_manager \<Rightarrow> int" where
  "get_connection_count m = connection_count m"

text \<open>Example values: a handle whose \<open>accept\<close> completes, and a manager with three clients
  \<open>a\<close>, \<open>b\<close>, \<open>c\<close>, where sending to \<open>b\<close> raises.\<close>

definition socket :: "nat \<Rightarrow> exn option \<Rightarrow> websocket" where
  "socket n s = \<lparr>ws_name = n, ws_accept = None, ws_send_json = s\<rparr>"

definition three_clients :: connection_manager where
  "three_clients =
     \<lparr>active_connections =
        [([97], socket 1 None), ([98], socket 2 (Some (PyError [] []))), ([99], socket 3 None)],
      connection_count = 3\<rparr>"

section \<open>Dual translator: translation cache\<close>

text \<open>
  \<open>services/dual_translator.py\<close>, class \<open>TranslationCache\<close> and
  \<open>DualTranslator.text_to_sign\<close>. The cache is a Python dict from keys to
  (result, timestamp) pairs, in insertion order. Every reading of \<open>time.time()\<close> is an
  argument of the model. The key is the MD5 hex digest of the UTF-8 encoding of
  \<open>direction:content\<close>; the digest function is the parameter \<open>md5\<close>, and the encoding
  raises \<open>UnicodeEncodeError\<close> on a surrogate code point.
\<close>

record 'r translation_cache =
  cache_size :: int
  ttl :: int
  cache :: "(pystr \<times> 'r \<times> real) list"

definition generate_key :: "(pystr \<Rightarrow> pystr) \<Rightarrow> pystr \<Rightarrow> pystr \<Rightarrow> exn + pystr" where
  "generate_key md5 content direction =
     (let raw = direction @ [58] @ content
      in if list_ex (\<lambda>c. 0xD800 \<le> c \<and> c \<le> 0xDFFF) raw
         then Inl (PyError [85, 110, 105, 99, 111, 100, 101, 69, 110, 99, 111, 100, 101, 69,
                            114, 114, 111, 114] [])
         else Inr (md5 raw))"

text \<open>\<open>get\<close>: the looked-up result, if any, and the cache, from which an expired entry
  has been deleted.\<close>

definition cache_get ::
  "(pystr \<Rightarrow> pystr) \<Rightarrow> real \<Rightarrow> pystr \<Rightarrow> pystr \<Rightarrow> 'r translation_cache \<Rightarrow>
   exn + ('r option \<times> 'r translation_cache)" where
  "cache_get md5 current_time content direction c =
     (case generate_key md5 content direction of
        Inl e \<Rightarrow> Inl e
      | Inr key \<Rightarrow>
          (case map_of (cache c) key of
             Some (result, timestamp) \<Rightarrow>
               if current_time - timestamp < real_of_int (ttl c) then Inr (Some result, c)
               else Inr (None, c\<lparr>cache := AList.delete key (cache c)\<rparr>)
           | None \<Rightarrow> Inr (None, c)))"

text \<open>\<open>min(self.cache.keys(), key=lambda k: self.cache[k][1])\<close>: Python's \<open>min\<close> keeps the
  first of several minimal elements; on an empty dict it raises \<open>ValueError\<close>.\<close>

fun min_loop :: "(pystr \<times> 'r \<times> real) \<Rightarrow> (pystr \<times> 'r \<times> real) list \<Rightarrow> pystr" where
  "min_loop best [] = fst best"
| "min_loop best (p # ps) = min_loop (if snd (snd p) < snd (snd best) then p else best) ps"

definition oldest_key :: "(pystr \<times> 'r \<times> real) list \<Rightarrow> exn + pystr" where
  "oldest_key al =
     (case al of
        [] \<Rightarrow> Inl (PyError [86, 97, 108, 117, 101, 69, 114, 114, 111, 114] [])
      | p # ps \<Rightarrow> Inr (min_loop p ps))"

definition cache_set ::
  "(pystr \<Rightarrow> pystr) \<Rightarrow> real \<Rightarrow> pystr \<Rightarrow> pystr \<Rightarrow> 'r \<Rightarrow> 'r translation_cache \<Rightarrow>
   exn + 'r translation_cache" where
  "cache_set md5 current_time content direction result c =
     (case generate_key md5 content direction of
        Inl e \<Rightarrow> Inl e
      | Inr key \<Rightarrow>
          if int (length (cache c)) \<ge> cache_size c then
            (case oldest_key (cache c) of
               Inl e \<Rightarrow> Inl e
             | Inr k \<Rightarrow>
                 Inr (c\<lparr>cache := AList.update key (result, current_time)
                                   (AList.delete k (cache c))\<rparr>))
          else Inr (c\<lparr>cache := AList.update key (result, current_time) (cache c)\<rparr>))"

text \<open>
  The result of a translation. A \<open>SignAction\<close> is a value of the type \<open>'a\<close>;
  \<open>export_animation_parameters\<close> copies the twelve fields of every action into a dict,
  so the exported list is the list of actions itself.
\<close>

record 'a sign_sequence =
  actions :: "'a list"
  source_text :: pystr
  total_duration :: real
  seq_metadata :: "(pystr \<times> pystr) list"

record 'a result_metadata =
  md_sequence :: "'a sign_sequence"
  md_action_count :: nat
  md_total_duration :: real
  md_animation_params :: "'a list"

record 'a translation_result =
  tr_source :: pystr
  tr_target :: pystr
  tr_direction :: pystr
  tr_confidence :: real
  tr_duration :: real
  tr_metadata :: "'a result_metadata"

record translator_stats =
  sign_to_text_count :: int
  text_to_sign_count :: int
  total_translations :: int
  cache_hits :: int
  cache_misses :: int

record 'a dual_translator =
  dt_cache :: "'a translation_result translation_cache"
  dt_stats :: translator_stats

text \<open>The four readings of the clock in one call of \<open>text_to_sign\<close>: in \<open>cache.get\<close>,
  before and after the translation, and in \<open>cache.set\<close>.\<close>

record clock =
  at_get :: real
  at_start :: real
  at_end :: real
  at_set :: real

fun str_of_nat :: "nat \<Rightarrow> pystr" where
  "str_of_nat n = (if n < 10 then [48 + n] else str_of_nat (n div 10) @ [48 + n mod 10])"

declare str_of_nat.simps [simp del]

definition direction_text_to_sign :: pystr where
  \<comment> \<open>\<open>text_to_sign\<close>\<close>
  "direction_text_to_sign = [116, 101, 120, 116, 95, 116, 111, 95, 115, 105, 103, 110]"

text \<open>
  \<open>text_to_sign\<close>: the parameter \<open>translate\<close> is \<open>text_to_sign_service.translate\<close>, which
  returns a sign sequence or raises. The outcome is the returned result or the exception
  that propagates, together with the translator as the call leaves it.
\<close>

definition new_result :: "clock \<Rightarrow> pystr \<Rightarrow> 'a sign_sequence \<Rightarrow> 'a translation_result" where
  "new_result clk text sequence =
     \<lparr>tr_source = text,
      tr_target = [91] @ str_of_nat (length (actions sequence)) @
        [32, 115, 105, 103, 110, 32, 97, 99, 116, 105, 111, 110, 115, 93],
      tr_direction = direction_text_to_sign,
      tr_confidence = 1.0,
      tr_duration = at_end clk - at_start clk,
      tr_metadata =
        \<lparr>md_sequence = sequence,
         md_action_count = length (actions sequence),
         md_total_duration = total_duration sequence,
         md_animation_params = actions sequence\<rparr>\<rparr>"

definition count_hit :: "'a dual_translator \<Rightarrow> 'a dual_translator" where
  \<comment> \<open>\<open>self.stats['cache_hits'] += 1\<close>\<close>
  "count_hit t = t\<lparr>dt_stats := (dt_stats t)\<lparr>cache_hits := cache_hits (dt_stats t) + 1\<rparr>\<rparr>"

definition count_miss :: "'a dual_translator \<Rightarrow> 'a dual_translator" where
  \<comment> \<open>\<open>self.stats['cache_misses'] += 1\<close>\<close>
  "count_miss t = t\<lparr>dt_stats := (dt_stats t)\<lparr>cache_misses := cache_misses (dt_stats t) + 1\<rparr>\<rparr>"

definition count_translation :: "'a dual_translator \<Rightarrow> 'a dual_translator" where
  \<comment> \<open>\<open>text_to_sign_count\<close> and \<open>total_translations\<close> go up by one\<close>
  "count_translation t =
     t\<lparr>dt_stats := (dt_stats t)
        \<lparr>text_to_sign_count := text_to_sign_count (dt_stats t) + 1,
         total_translations := total_translations (dt_stats t) + 1\<rparr>\<rparr>"

definition text_to_sign ::
  "(pystr \<Rightarrow> pystr) \<Rightarrow> (pystr \<Rightarrow> bool \<Rightarrow> pystr option \<Rightarrow> exn + 'a sign_sequence) \<Rightarrow> clock \<Rightarrow>
   pystr \<Rightarrow> bool \<Rightarrow> bool \<Rightarrow> pystr option \<Rightarrow> 'a dual_translator \<Rightarrow>
   (exn + 'a translation_result) \<times> 'a dual_translator" where
  "text_to_sign md5 translate clk text use_cache apply_grammar rhythm t =
     (let looked_up =
            (if use_cache then cache_get md5 (at_get clk) text direction_text_to_sign (dt_cache t)
             else Inr (None, dt_cache t))
      in case looked_up of
           Inl e \<Rightarrow> (Inl e, t)
         | Inr (Some cached_result, c) \<Rightarrow> (Inr cached_result, count_hit (t\<lparr>dt_cache := c\<rparr>))
         | Inr (None, c) \<Rightarrow>
             (let t1 = (if use_cache then count_miss (t\<lparr>dt_cache := c\<rparr>) else t)
              in case translate text apply_grammar rhythm of
                   Inl e \<Rightarrow> (Inl e, t1)
                 | Inr sequence \<Rightarrow>
                     (let result = new_result clk text sequence;
                          t2 = count_translation t1
                      in if use_cache then
                           (case cache_set md5 (at_set clk) text direction_text_to_sign result
                                   (dt_cache t2) of
                              Inl e \<Rightarrow> (Inl e, t2)
                            | Inr c2 \<Rightarrow> (Inr result, t2\<lparr>dt_cache := c2\<rparr>))
                         else (Inr result, t2))))"

text \<open>The invariant of the cache: the keys are those of a dict (no key twice), and there
  are at most \<open>cache_size\<close> entries.\<close>

definition cache_ok :: "'r translation_cache \<Rightarrow> bool" where
  "cache_ok c \<longleftrightarrow> distinct (map fst (cache c)) \<and> int (length (cache c)) \<le> cache_size c"

text \<open>The translator after the entry of a key has been deleted from its cache.\<close>

definition purged :: "pystr \<Rightarrow> 'a dual_translator \<Rightarrow> 'a dual_translator" where
  "purged key t = t\<lparr>dt_cache := (dt_cache t)\<lparr>cache := AList.delete key (cache (dt_cache t))\<rparr>\<rparr>"

text \<open>Example values: a translation service that answers every text with two actions, a
  translator with an empty cache of capacity 2 and a TTL of 3600 seconds, and a clock
  whose call starts at \<open>s\<close> and takes one second.\<close>

definition two_actions :: "pystr \<Rightarrow> bool \<Rightarrow> pystr option \<Rightarrow> exn + nat sign_sequence" where
  "two_actions text apply_grammar rhythm =
     Inr \<lparr>actions = [1, 2], source_text = text, total_duration = 2, seq_metadata = []\<rparr>"

definition fresh_translator :: "nat dual_translator" where
  "fresh_translator =
     \<lparr>dt_cache = \<lparr>cache_size = 2, ttl = 3600, cache = []\<rparr>,
      dt_stats = \<lparr>sign_to_text_count = 0, text_to_sign_count = 0, total_translations = 0,
                  cache_hits = 0, cache_misses = 0\<rparr>\<rparr>"

definition call_at :: "real \<Rightarrow> clock" where
  "call_at s = \<lparr>at_get = s, at_start = s, at_end = s + 1, at_set = s + 1\<rparr>"

definition hi_sequence :: "nat sign_sequence" where
  "hi_sequence = \<lparr>actions = [1, 2], source_text = [104, 105], total_duration = 2, seq_metadata = []\<rparr>"

definition hi_key :: pystr where
  \<comment> \<open>\<open>text_to_sign:hi\<close>\<close>
  "hi_key = [116, 101, 120, 116, 95, 116, 111, 95, 115, 105, 103, 110, 58, 104, 105]"

definition after_first_call :: "nat dual_translator" where
  "after_first_call =
     \<lparr>dt_cache = \<lparr>cache_size = 2, ttl = 3600,
                  cache = [(hi_key, new_result (call_at 0) [104, 105] hi_sequence, 1)]\<rparr>,
      dt_stats = \<lparr>sign_to_text_count = 0, text_to_sign_count = 1, total_translations = 1,
                  cache_hits = 0, cache_misses = 1\<rparr>\<rparr>"

definition full_cache :: "nat translation_cache" where
  "full_cache = \<lparr>cache_size = 2, ttl = 3600, cache = [([97], 10, 5), ([98], 20, 3)]\<rparr>"

section \<open>Gesture classifier: hand adjacency\<close>

text \<open>
  \<open>services/stgcn_model.py\<close>, \<open>STGCN._build_adjacency_matrix\<close>. A matrix is a list of rows.
  Every entry the function writes or compares is 0, 1 or 2, which floats represent
  exactly, so the entries are integers here. Writing outside the matrix raises
  \<open>IndexError\<close>, which happens when \<open>num_points\<close> is less than 21.
\<close>

type_synonym matrix = "int list list"

definition links :: "(nat \<times> nat) list" where
  "links =
     [(0, 1), (0, 5), (0, 9), (0, 13), (0, 17),
      (1, 2), (2, 3), (3, 4),
      (5, 6), (6, 7), (7, 8),
      (9, 10), (10, 11), (11, 12),
      (13, 14), (14, 15), (15, 16),
      (17, 18), (18, 19), (19, 20)]"

definition zeros :: "nat \<Rightarrow> matrix" where
  "zeros n = replicate n (replicate n 0)"

definition eye :: "nat \<Rightarrow> matrix" where
  "eye n = map (\<lambda>i. map (\<lambda>j. if i = j then 1 else 0) [0..<n]) [0..<n]"

definition index_error :: exn where
  "index_error = PyError [73, 110, 100, 101, 120, 69, 114, 114, 111, 114] []"

definition set_entry :: "matrix \<Rightarrow> nat \<Rightarrow> nat \<Rightarrow> int \<Rightarrow> exn + matrix" where
  \<comment> \<open>\<open>m[i, j] = v\<close>\<close>
  "set_entry m i j v =
     (if i < length m \<and> j < length (m ! i) then Inr (m[i := (m ! i)[j := v]])
      else Inl index_error)"

fun set_links :: "(nat \<times> nat) list \<Rightarrow> matrix \<Rightarrow> exn + matrix" where
  "set_links [] m = Inr m"
| "set_links ((i, j) # rest) m =
     (case set_entry m i j 1 of
        Inl e \<Rightarrow> Inl e
      | Inr m1 \<Rightarrow>
          (case set_entry m1 j i 1 of
             Inl e \<Rightarrow> Inl e
           | Inr m2 \<Rightarrow> set_links rest m2))"

definition fill_diagonal :: "matrix \<Rightarrow> int \<Rightarrow> matrix" where
  "fill_diagonal m v = map (\<lambda>i. (m ! i)[i := v]) [0..<length m]"

definition np_where :: "(int \<Rightarrow> bool) \<Rightarrow> matrix \<Rightarrow> matrix" where
  \<comment> \<open>\<open>np.where(cond, 1, 0)\<close>\<close>
  "np_where cond m = map (map (\<lambda>x. if cond x then 1 else 0)) m"

text \<open>The matrix \<open>adj_matrix\<close> after the links and the self-loops have been written.\<close>

definition adj_matrix :: "nat \<Rightarrow> exn + matrix" where
  "adj_matrix num_nodes =
     (case set_links links (zeros num_nodes) of
        Inl e \<Rightarrow> Inl e
      | Inr m \<Rightarrow> Inr (fill_diagonal m 1))"

text \<open>The result is the stack of \<open>A_self\<close>, \<open>A_centripetal\<close> and \<open>A_centrifugal\<close>.\<close>

definition build_adjacency_matrix :: "nat \<Rightarrow> exn + matrix \<times> matrix \<times> matrix" where
  "build_adjacency_matrix num_nodes =
     (case adj_matrix num_nodes of
        Inl e \<Rightarrow> Inl e
      | Inr adj \<Rightarrow>
          (let A_self = eye num_nodes;
               A_centripetal = fill_diagonal (np_where (\<lambda>x. x > 0 \<and> x < 2) adj) 0;
               A_centrifugal = fill_diagonal (np_where (\<lambda>x. x \<ge> 2) adj) 0
           in Inr (A_self, A_centripetal, A_centrifugal)))"

text \<open>Two joints are neighbours in the hand's kinematic chain when a link joins them.\<close>

definition linked :: "nat \<Rightarrow> nat \<Rightarrow> bool" where
  "linked i j \<longleftrightarrow> List.member links (i, j) \<or> List.member links (j, i)"

definition neighbour_matrix :: "nat \<Rightarrow> matrix" where
  "neighbour_matrix n = map (\<lambda>i. map (\<lambda>j. if linked i j then 1 else 0) [0..<n]) [0..<n]"

definition transpose_m :: "nat \<Rightarrow> matrix \<Rightarrow> matrix" where
  "transpose_m n m = map (\<lambda>i. map (\<lambda>j. m ! j ! i) [0..<n]) [0..<n]"

section \<open>Sign recognition: smoothing of predictions\<close>

text \<open>
  \<open>services/sign_recognition.py\<close>, \<open>SignRecognitionService._apply_smoothing\<close>. A prediction
  is an \<open>Optional[str]\<close> (the vocabulary lookup may give \<open>None\<close>). \<open>prediction_history\<close> is a
  \<open>deque(maxlen=5)\<close>; \<open>prediction_counts\<close> is a dict in insertion order. The dict
  \<open>confidence_sum\<close> is filled by the source and never read, so it is left out.
\<close>

definition DEFAULT_SMOOTHING_WINDOW :: nat where
  "DEFAULT_SMOOTHING_WINDOW = 5"

definition deque_append :: "nat \<Rightarrow> 'a list \<Rightarrow> 'a \<Rightarrow> 'a list" where
  \<comment> \<open>\<open>append\<close> on a deque with \<open>maxlen\<close>: when full, the leftmost item is discarded\<close>
  "deque_append maxlen d x = drop (length (d @ [x]) - maxlen) (d @ [x])"

definition dict_get :: "('k \<times> nat) list \<Rightarrow> 'k \<Rightarrow> nat" where
  \<comment> \<open>\<open>d.get(k, 0)\<close>\<close>
  "dict_get d k = (case map_of d k of None \<Rightarrow> 0 | Some n \<Rightarrow> n)"

fun count_predictions ::
  "(pystr option \<times> real) list \<Rightarrow> (pystr \<times> nat) list \<Rightarrow> (pystr \<times> nat) list" where
  "count_predictions [] counts = counts"
| "count_predictions ((pred, conf) # rest) counts =
     (case pred of
        None \<Rightarrow> count_predictions rest counts
      | Some p \<Rightarrow> count_predictions rest (AList.update p (dict_get counts p + 1) counts))"

text \<open>\<open>max(d, key=lambda x: d[x])\<close> keeps the first of several maximal keys.\<close>

fun max_loop :: "(pystr \<times> nat) \<Rightarrow> (pystr \<times> nat) list \<Rightarrow> pystr \<times> nat" where
  "max_loop best [] = best"
| "max_loop best (p # ps) = max_loop (if snd p > snd best then p else best) ps"

text \<open>\<open>_apply_smoothing\<close> returns the smoothed prediction and the new history.\<close>

definition apply_smoothing ::
  "pystr option \<Rightarrow> real \<Rightarrow> (pystr option \<times> real) list \<Rightarrow>
   pystr option \<times> (pystr option \<times> real) list" where
  "apply_smoothing prediction conf prediction_history =
     (let history = deque_append DEFAULT_SMOOTHING_WINDOW prediction_history (prediction, conf)
      in if length history < DEFAULT_SMOOTHING_WINDOW then (prediction, history)
         else
           (case count_predictions history [] of
              [] \<Rightarrow> (prediction, history)
            | c # cs \<Rightarrow>
                (let best = max_loop c cs
                 in if snd best \<ge> DEFAULT_SMOOTHING_WINDOW div 2 then (Some (fst best), history)
                    else (prediction, history))))"

text \<open>The predictions of a history that are not \<open>None\<close>.\<close>

definition stored_predictions :: "(pystr option \<times> real) list \<Rightarrow> pystr list" where
  "stored_predictions h = List.map_filter fst h"

section \<open>Floating-point values and logging\<close>

text \<open>
  A floating-point value of Python or of NumPy is a real number, an infinity or NaN. Which
  reals a format holds and how an operation rounds is not fixed here: the arithmetic of
  the libraries enters the methods below as a parameter, each call of which returns a
  value or raises, and only the comparisons, which are exact, are defined. Both zeros
  are \<open>Fin 0\<close>.
\<close>

datatype fpval = Fin real | PInf | NInf | NaN

fun f_lt :: "fpval \<Rightarrow> fpval \<Rightarrow> bool" where
  "f_lt (Fin a) (Fin b) = (a < b)"
| "f_lt (Fin a) PInf = True"
| "f_lt (Fin a) NInf = False"
| "f_lt (Fin a) NaN = False"
| "f_lt PInf y = False"
| "f_lt NInf (Fin b) = True"
| "f_lt NInf PInf = True"
| "f_lt NInf NInf = False"
| "f_lt NInf NaN = False"
| "f_lt NaN y = False"

definition f_le :: "fpval \<Rightarrow> fpval \<Rightarrow> bool" where
  "f_le x y = (x \<noteq> NaN \<and> y \<noteq> NaN \<and> (x = y \<or> f_lt x y))"


text \<open>The logger of a module: each of its two calls completes (\<open>None\<close>) or raises an
  exception, as its handlers and filters make it.\<close>

record py_logger =
  log_info :: "pystr \<Rightarrow> exn option"
  log_error :: "pystr \<Rightarrow> exn option"

definition exn_str :: "exn \<Rightarrow> pystr" where
  \<comment> \<open>\<open>str(exc)\<close>; for an \<open>HTTPException\<close> it is the status code, a colon and the detail\<close>
  "exn_str e =
     (case e of
        HTTPException s d \<Rightarrow> str_of_nat s @ [58, 32] @ d
      | PyError ty msg \<Rightarrow> msg)"

text \<open>Example values: a logger whose two calls have given outcomes, a \<open>RuntimeError\<close> with
  the text \<open>down\<close>, and an arithmetic on the floating-point values that does not round
  and overflows to an infinity beyond the range of the 64-bit format.\<close>

definition logger_with :: "exn option \<Rightarrow> exn option \<Rightarrow> py_logger" where
  "logger_with info_outcome error_outcome =
     \<lparr>log_info = (\<lambda>m. info_outcome), log_error = (\<lambda>m. error_outcome)\<rparr>"

definition runtime_error_down :: exn where
  "runtime_error_down =
     PyError [82, 117, 110, 116, 105, 109, 101, 69, 114, 114, 111, 114] [100, 111, 119, 110]"

definition to_fp :: "real \<Rightarrow> fpval" where
  "to_fp x = (if 2 ^ 1024 \<le> x then PInf else if x \<le> - (2 ^ 1024) then NInf else Fin x)"

fun fp_sign :: "fpval \<Rightarrow> int" where
  "fp_sign (Fin a) = (if a < 0 then - 1 else if a = 0 then 0 else 1)"
| "fp_sign PInf = 1"
| "fp_sign NInf = - 1"
| "fp_sign NaN = 0"

definition fp_of_sign :: "int \<Rightarrow> fpval" where
  "fp_of_sign s = (if s = 0 then NaN else if 0 < s then PInf else NInf)"

fun unrounded_times :: "fpval \<Rightarrow> fpval \<Rightarrow> fpval" where
  "unrounded_times (Fin a) (Fin b) = to_fp (a * b)"
| "unrounded_times x y = fp_of_sign (fp_sign x * fp_sign y)"

fun unrounded_divide :: "fpval \<Rightarrow> fpval \<Rightarrow> fpval" where
  "unrounded_divide (Fin a) (Fin b) =
     (if b = 0 then fp_of_sign (fp_sign (Fin a)) else to_fp (a / b))"
| "unrounded_divide (Fin a) PInf = Fin 0"
| "unrounded_divide (Fin a) NInf = Fin 0"
| "unrounded_divide PInf (Fin b) = (if b < 0 then NInf else PInf)"
| "unrounded_divide NInf (Fin b) = (if b < 0 then PInf else NInf)"
| "unrounded_divide x y = NaN"

fun unrounded_plus :: "fpval \<Rightarrow> fpval \<Rightarrow> fpval" where
  "unrounded_plus (Fin a) (Fin b) = to_fp (a + b)"
| "unrounded_plus NaN y = NaN"
| "unrounded_plus x NaN = NaN"
| "unrounded_plus PInf NInf = NaN"
| "unrounded_plus NInf PInf = NaN"
| "unrounded_plus PInf y = PInf"
| "unrounded_plus x PInf = PInf"
| "unrounded_plus NInf y = NInf"
| "unrounded_plus x NInf = NInf"

fun unrounded_sqrt :: "fpval \<Rightarrow> fpval" where
  "unrounded_sqrt (Fin a) = (if a < 0 then NaN else Fin (sqrt a))"
| "unrounded_sqrt PInf = PInf"
| "unrounded_sqrt NInf = NaN"
| "unrounded_sqrt NaN = NaN"

section \<open>Audio preprocessor: normalize\<close>

















section \<open>Splitting a string into tokens\<close>

text \<open>
  The maximal runs of characters that are not separators, in order: \<open>str.split()\<close> when the
  separators are the whitespace characters, and \<open>re.findall\<close> with a pattern \<open>[^...]+\<close> when
  they are the characters of the class. \<open>cur\<close> is the run being read.
\<close>

fun split_acc :: "(nat \<Rightarrow> bool) \<Rightarrow> pystr \<Rightarrow> pystr \<Rightarrow> pystr list" where
  "split_acc sep cur [] = (if cur = [] then [] else [cur])"
| "split_acc sep cur (c # cs) =
     (if sep c then (if cur = [] then split_acc sep [] cs else cur # split_acc sep [] cs)
      else split_acc sep (cur @ [c]) cs)"

definition py_split :: "pystr \<Rightarrow> pystr list" where
  \<comment> \<open>\<open>s.split()\<close>\<close>
  "py_split s = split_acc py_isspace [] s"

fun join :: "pystr \<Rightarrow> pystr list \<Rightarrow> pystr" where
  \<comment> \<open>\<open>sep.join(parts)\<close>\<close>
  "join sep [] = []"
| "join sep [w] = w"
| "join sep (w # ws) = w @ sep @ join sep ws"

section \<open>Quality evaluator: BLEU\<close>

text \<open>
  \<open>services/dual_translator.py\<close>, \<open>TranslationQualityEvaluator.evaluate_bleu\<close>. The scores are
  real numbers. The sets of n-grams are lists without repetitions. The module never
  imports NumPy at its top level (only \<open>get_average_metrics\<close> imports it, locally), so the
  evaluation of \<open>np.exp\<close> raises \<open>NameError\<close>.
\<close>

definition ngrams :: "nat \<Rightarrow> pystr list \<Rightarrow> pystr list" where
  \<comment> \<open>the set of \<open>' '.join(words[j:j+i])\<close> for \<open>j\<close> in \<open>range(len(words) - i + 1)\<close>\<close>
  "ngrams i words =
     remdups (map (\<lambda>j. join [32] (take i (drop j words))) [0..<length words + 1 - i])"

definition precision :: "pystr list \<Rightarrow> pystr list \<Rightarrow> nat \<Rightarrow> real" where
  "precision ref_words hyp_words i =
     (let ref_ngrams = ngrams i ref_words;
          hyp_ngrams = ngrams i hyp_words
      in if hyp_ngrams = [] then 0.0
         else real (length (filter (\<lambda>g. g \<in> set ref_ngrams) hyp_ngrams)) /
              real (length hyp_ngrams))"

definition name_error_np :: exn where
  \<comment> \<open>\<open>NameError: name 'np' is not defined\<close>\<close>
  "name_error_np =
     PyError [78, 97, 109, 101, 69, 114, 114, 111, 114]
       [110, 97, 109, 101, 32, 39, 110, 112, 39, 32, 105, 115, 32, 110, 111, 116, 32, 100,
        101, 102, 105, 110, 101, 100]"

definition evaluate_bleu :: "pystr \<Rightarrow> pystr \<Rightarrow> int \<Rightarrow> exn + real" where
  "evaluate_bleu reference hypothesis n =
     (if reference = [] \<or> hypothesis = [] then Inr 0.0
      else
        (let ref_words = py_split reference;
             hyp_words = py_split hypothesis
         in if hyp_words = [] then Inr 0.0
            else
              (let precisions =
                     map (\<lambda>i. precision ref_words hyp_words (nat i))
                       [1..min n (int (length hyp_words))]
               in if precisions = [] then Inr 0.0
                  else
                    (let geometric_mean = prod_list precisions powr (1.0 / real (length precisions))
                     in if length hyp_words < length ref_words then Inl name_error_np
                        else Inr (geometric_mean * 1.0)))))"

section \<open>Application-level exception handlers and a route-level catch\<close>

text \<open>
  \<open>main.py\<close>, \<open>http_exception_handler\<close>, \<open>validation_exception_handler\<close> and
  \<open>general_exception_handler\<close>, and \<open>api/routes/translation.py\<close>, \<open>translate_text\<close>. A handler
  writes one line to the server log and returns a JSON response; the model returns both.
  The request is of any type \<open>'req\<close>: the handlers do not read it. An entry of the list
  that \<open>exc.errors()\<close> gives for a validation error is a value of the type \<open>error_dict\<close>; the
  content of a response has the key \<open>details\<close> only where \<open>err_details\<close> is not \<open>None\<close>.
\<close>

typedecl error_dict

record error_content =
  err_success :: bool
  err_error :: pystr
  err_details :: "error_dict list option"
  err_status_code :: nat

record json_response =
  resp_status_code :: nat
  resp_content :: error_content

text \<open>What reaches the handlers of the application: the framework's
  \<open>RequestValidationError\<close>, raised before a route is entered, or any other exception (an
  \<open>HTTPException\<close>, or one of another class, which \<open>PyError\<close> stands for).\<close>

datatype app_exception =
    RequestValidationError "error_dict list"
  | Raised exn

definition exn_type_name :: "exn \<Rightarrow> pystr" where
  \<comment> \<open>\<open>type(exc).__name__\<close>\<close>
  "exn_type_name e =
     (case e of
        HTTPException s d \<Rightarrow> [72, 84, 84, 80, 69, 120, 99, 101, 112, 116, 105, 111, 110]
      | PyError ty msg \<Rightarrow> ty)"

definition internal_error_text :: pystr where
  \<comment> \<open>the generic text of the fallback: "internal server error", in Chinese\<close>
  "internal_error_text = [26381, 21153, 22120, 20869, 37096, 38169, 35823]"

definition validation_error_text :: pystr where
  \<comment> \<open>"validation of the request parameters failed", in Chinese\<close>
  "validation_error_text = [35831, 27714, 21442, 25968, 39564, 35777, 22833, 36133]"

definition http_exception_handler :: "'req \<Rightarrow> nat \<Rightarrow> pystr \<Rightarrow> pystr \<times> json_response" where
  "http_exception_handler request status_code detail =
     ([72, 84, 84, 80, 32, 24322, 24120, 58, 32] @ str_of_nat status_code @ [32, 45, 32] @ detail,
      \<lparr>resp_status_code = status_code,
       resp_content = \<lparr>err_success = False, err_error = detail, err_details = None,
                       err_status_code = status_code\<rparr>\<rparr>)"

text \<open>The log line of \<open>validation_exception_handler\<close> holds the list of errors as Python
  prints it; \<open>repr_errors\<close> is that printing.\<close>

definition validation_exception_handler ::
  "(error_dict list \<Rightarrow> pystr) \<Rightarrow> 'req \<Rightarrow> error_dict list \<Rightarrow> pystr \<times> json_response" where
  "validation_exception_handler repr_errors request errors =
     ([35831, 27714, 39564, 35777, 22833, 36133, 58, 32] @ repr_errors errors,
      \<lparr>resp_status_code = 422,
       resp_content = \<lparr>err_success = False, err_error = validation_error_text,
                       err_details = Some errors, err_status_code = 422\<rparr>\<rparr>)"

definition general_exception_handler :: "'req \<Rightarrow> exn \<Rightarrow> pystr \<times> json_response" where
  "general_exception_handler request exc =
     ([26410, 22788, 29702, 30340, 24322, 24120, 58, 32] @ exn_type_name exc @ [32, 45, 32] @
        exn_str exc,
      \<lparr>resp_status_code = 500,
       resp_content = \<lparr>err_success = False, err_error = internal_error_text,
                       err_details = None, err_status_code = 500\<rparr>\<rparr>)"

text \<open>The framework gives an exception to the handler registered for its class: an
  \<open>HTTPException\<close> to \<open>http_exception_handler\<close>, a \<open>RequestValidationError\<close> to
  \<open>validation_exception_handler\<close>, any other to \<open>general_exception_handler\<close>.\<close>

definition handle_exception ::
  "(error_dict list \<Rightarrow> pystr) \<Rightarrow> 'req \<Rightarrow> app_exception \<Rightarrow> pystr \<times> json_response" where
  "handle_exception repr_errors request exc =
     (case exc of
        RequestValidationError errors \<Rightarrow> validation_exception_handler repr_errors request errors
      | Raised (HTTPException s d) \<Rightarrow> http_exception_handler request s d
      | Raised (PyError ty msg) \<Rightarrow> general_exception_handler request (PyError ty msg))"

record translation_request =
  treq_text :: pystr
  treq_source_lang :: "pystr option"
  treq_target_lang :: "pystr option"

record translation_response =
  tres_success :: bool
  tres_original_text :: pystr
  tres_translated_text :: pystr
  tres_source_lang :: pystr
  tres_target_lang :: pystr
  tres_confidence :: real
  tres_message :: pystr

record app_settings =
  DEFAULT_SOURCE_LANG :: pystr
  DEFAULT_TARGET_LANG :: pystr

definition py_or :: "pystr option \<Rightarrow> pystr \<Rightarrow> pystr" where
  \<comment> \<open>\<open>x or default\<close>: \<open>None\<close> and the empty string are false\<close>
  "py_or x dflt = (case x of None \<Rightarrow> dflt | Some s \<Rightarrow> if s = [] then dflt else s)"

definition same_language_detail :: pystr where
  \<comment> \<open>the detail of the 400 error: "source and target language must differ", in Chinese\<close>
  "same_language_detail =
     [28304, 35821, 35328, 21644, 30446, 26631, 35821, 35328, 19981, 33021, 30456, 21516]"

definition request_received_message :: "pystr \<Rightarrow> pystr \<Rightarrow> pystr \<Rightarrow> pystr" where
  \<comment> \<open>the text given to \<open>logger.info\<close>: the two languages and the length of the text\<close>
  "request_received_message source_lang target_lang text =
     [25910, 21040, 32763, 35793, 35831, 27714, 58, 32] @ source_lang @ [32, 45, 62, 32] @
     target_lang @ [44, 32, 25991, 26412, 38271, 24230, 58, 32] @ str_of_nat (length text)"

definition request_source_lang :: "app_settings \<Rightarrow> translation_request \<Rightarrow> pystr" where
  \<comment> \<open>\<open>request.source_lang or settings.DEFAULT_SOURCE_LANG\<close>\<close>
  "request_source_lang settings request =
     py_or (treq_source_lang request) (DEFAULT_SOURCE_LANG settings)"

definition request_target_lang :: "app_settings \<Rightarrow> translation_request \<Rightarrow> pystr" where
  \<comment> \<open>\<open>request.target_lang or settings.DEFAULT_TARGET_LANG\<close>\<close>
  "request_target_lang settings request =
     py_or (treq_target_lang request) (DEFAULT_TARGET_LANG settings)"

definition placeholder_translation :: "pystr \<Rightarrow> pystr \<Rightarrow> pystr \<Rightarrow> pystr" where
  \<comment> \<open>the mock result: the text behind a tag for the target language\<close>
  "placeholder_translation source_lang target_lang text =
     (if source_lang = [122, 104] \<and> target_lang = [101, 110] then [91, 69, 78, 93, 32] @ text
      else if source_lang = [101, 110] \<and> target_lang = [122, 104]
      then [91, 20013, 25991, 93, 32] @ text
      else [91] @ target_lang @ [93, 32] @ text)"

text \<open>The body of the \<open>try\<close> block of \<open>translate_text\<close>. The route takes the logger of its
  module; the call of \<open>logger.info\<close> is the call of the block that can raise an exception
  of another class than \<open>HTTPException\<close>.\<close>

definition translate_text_try ::
  "py_logger \<Rightarrow> app_settings \<Rightarrow> translation_request \<Rightarrow> exn + translation_response" where
  "translate_text_try logger settings request =
     (let source_lang = request_source_lang settings request;
          target_lang = request_target_lang settings request
      in if source_lang = target_lang then Inl (HTTPException 400 same_language_detail)
         else
           (case log_info logger
                   (request_received_message source_lang target_lang (treq_text request)) of
              Some e \<Rightarrow> Inl e
            | None \<Rightarrow>
                (let translated_text =
                       placeholder_translation source_lang target_lang (treq_text request)
                 in Inr \<lparr>tres_success = True, tres_original_text = treq_text request,
                         tres_translated_text = translated_text, tres_source_lang = source_lang,
                         tres_target_lang = target_lang, tres_confidence = 0.95,
                         tres_message = [32763, 35793, 25104, 21151]\<rparr>)))"

definition translate_failed_prefix :: pystr where
  \<comment> \<open>"translation failed: ", in Chinese\<close>
  "translate_failed_prefix = [32763, 35793, 22833, 36133, 58, 32]"

text \<open>The exception that the \<open>except\<close> clauses raise for the exception caught, once the
  logging of the second clause has completed.\<close>

definition translate_text_except :: "exn \<Rightarrow> exn" where
  "translate_text_except e =
     (case e of
        HTTPException s d \<Rightarrow> HTTPException s d
      | PyError ty msg \<Rightarrow> HTTPException 500 (translate_failed_prefix @ exn_str e))"

text \<open>\<open>translate_text\<close>: an \<open>HTTPException\<close> is raised again as it is; for any other exception
  the second clause logs the failure, which may raise in its turn, and raises the 500.\<close>

definition translate_text ::
  "py_logger \<Rightarrow> app_settings \<Rightarrow> translation_request \<Rightarrow> exn + translation_response" where
  "translate_text logger settings request =
     (case translate_text_try logger settings request of
        Inr r \<Rightarrow> Inr r
      | Inl (HTTPException s d) \<Rightarrow> Inl (translate_text_except (HTTPException s d))
      | Inl (PyError ty msg) \<Rightarrow>
          (case log_error logger (translate_failed_prefix @ exn_str (PyError ty msg)) of
             Some e2 \<Rightarrow> Inl e2
           | None \<Rightarrow> Inl (translate_text_except (PyError ty msg))))"

text \<open>Example values: the default settings, a request for the text of two characters
  U+4F60 U+597D, and a request from English to English.\<close>

definition default_settings :: app_settings where
  "default_settings = \<lparr>DEFAULT_SOURCE_LANG = [122, 104], DEFAULT_TARGET_LANG = [101, 110]\<rparr>"

definition hello_request :: translation_request where
  "hello_request =
     \<lparr>treq_text = [20320, 22909], treq_source_lang = None, treq_target_lang = None\<rparr>"

definition english_request :: translation_request where
  "english_request =
     \<lparr>treq_text = [104, 105], treq_source_lang = Some [101, 110],
      treq_target_lang = Some [101, 110]\<rparr>"

section \<open>Sign grammar: word order\<close>

text \<open>
  \<open>services/sign_grammar.py\<close>, \<open>SignGrammarProcessor.analyze_sentence_structure\<close> and
  \<open>convert_to_sign_language_word_order\<close>. The processor is the record of the fields these
  methods read: the sign language and the five vocabulary sets. The words of a sentence
  are the matches of the pattern \<open>[^\s,.;...]+\<close>, whose class holds the whitespace
  characters, the comma, the full stop, the semicolon and their full-width forms, the
  ideographic comma and the full-width exclamation and question marks.
\<close>

datatype sign_language = ASL | CSL

record grammar_processor =
  gp_sign_language :: sign_language
  time_expressions :: "pystr set"
  place_expressions :: "pystr set"
  pronouns :: "pystr set"
  verbs :: "pystr set"
  nouns :: "pystr set"

record sentence_structure =
  st_time :: "pystr list"
  st_place :: "pystr list"
  st_subject :: "pystr list"
  st_verb :: "pystr list"
  st_object :: "pystr list"
  st_other :: "pystr list"

definition word_separator :: "nat \<Rightarrow> bool" where
  "word_separator c \<longleftrightarrow>
     py_isspace c \<or> c = 44 \<or> c = 65292 \<or> c = 46 \<or> c = 12290 \<or> c = 12289 \<or> c = 65281 \<or>
     c = 65311 \<or> c = 59 \<or> c = 65307"

definition find_words :: "pystr \<Rightarrow> pystr list" where
  \<comment> \<open>\<open>re.findall\<close> of the pattern on the sentence\<close>
  "find_words sentence = split_acc word_separator [] sentence"

definition empty_structure :: sentence_structure where
  "empty_structure =
     \<lparr>st_time = [], st_place = [], st_subject = [], st_verb = [], st_object = [], st_other = []\<rparr>"

text \<open>One round of the loop over the words: the four tests are made one after the other,
  each on the structure the earlier ones have left.\<close>

definition classify_word :: "grammar_processor \<Rightarrow> sentence_structure \<Rightarrow> pystr \<Rightarrow> sentence_structure" where
  "classify_word p st word =
     (let st1 = (if word \<in> time_expressions p then st\<lparr>st_time := st_time st @ [word]\<rparr> else st);
          st2 = (if word \<in> place_expressions p then st1\<lparr>st_place := st_place st1 @ [word]\<rparr>
                 else st1);
          st3 = (if word \<in> pronouns p \<or> word \<in> nouns p then
                   (if st_subject st2 = [] \<and> st_object st2 = []
                    then st2\<lparr>st_subject := st_subject st2 @ [word]\<rparr>
                    else if st_object st2 = []
                    then st2\<lparr>st_object := st_object st2 @ [word]\<rparr>
                    else st2\<lparr>st_other := st_other st2 @ [word]\<rparr>)
                 else st2);
          st4 = (if word \<in> verbs p then st3\<lparr>st_verb := st_verb st3 @ [word]\<rparr> else st3);
          categorized = (word \<in> time_expressions p \<or> word \<in> place_expressions p \<or>
                         word \<in> pronouns p \<or> word \<in> nouns p \<or> word \<in> verbs p)
      in if \<not> categorized then st4\<lparr>st_other := st_other st4 @ [word]\<rparr> else st4)"

definition analyze_sentence_structure :: "grammar_processor \<Rightarrow> pystr \<Rightarrow> sentence_structure" where
  "analyze_sentence_structure p sentence =
     foldl (classify_word p) empty_structure (find_words sentence)"

definition ordered_parts :: "grammar_processor \<Rightarrow> sentence_structure \<Rightarrow> pystr list" where
  "ordered_parts p st =
     (case gp_sign_language p of
        CSL \<Rightarrow> st_time st @ st_place st @ st_subject st @ st_verb st @ st_object st @ st_other st
      | ASL \<Rightarrow> (st_time st @ st_place st) @ (st_subject st @ st_object st @ st_verb st) @
               st_other st)"

definition convert_to_sign_language_word_order :: "grammar_processor \<Rightarrow> pystr \<Rightarrow> pystr" where
  "convert_to_sign_language_word_order p sentence =
     (let parts = ordered_parts p (analyze_sentence_structure p sentence)
      in if parts \<noteq> [] then join [32] parts else sentence)"

text \<open>The number of the four tests of the loop that a word passes.\<close>

definition category_count :: "grammar_processor \<Rightarrow> pystr \<Rightarrow> nat" where
  "category_count p w =
     (if w \<in> time_expressions p then 1 else 0) + (if w \<in> place_expressions p then 1 else 0) +
     (if w \<in> pronouns p \<or> w \<in> nouns p then 1 else 0) + (if w \<in> verbs p then 1 else 0)"

text \<open>The vocabulary of \<open>_initialize_vocabulary\<close>, every word as its code points, in the
  order of the source.\<close>

definition initial_time_expressions :: "pystr list" where
  "initial_time_expressions =
     [[29616, 22312], [20170, 22825], [26126, 22825], [26152, 22825], [21018, 25165],
      [21518, 26469], [26089, 26216], [26202, 19978], [20013, 21320], [30333, 22825],
      [22812, 38388], [20197, 21069], [20197, 21518], [24635, 26159], [32463, 24120],
      [20598, 23572], [26143, 26399, 19968], [26143, 26399, 20108], [26143, 26399, 19977],
      [26143, 26399, 22235], [26143, 26399, 20116], [26143, 26399, 20845], [26143, 26399,
      26085], [21608, 19968], [21608, 20108], [21608, 19977], [21608, 22235], [21608,
      20116], [21608, 20845], [21608, 26085], [19968], [20108], [19977], [22235], [20116],
      [20845], [26085], [26089, 19978], [19979, 21320], [20621, 26202], [28145, 22812],
      [28165, 26216]]"

definition initial_place_expressions :: "pystr list" where
  "initial_place_expressions =
     [[36825, 37324], [37027, 37324], [23478], [23398, 26657], [21307, 38498], [21830,
      22330], [21271, 20140], [19978, 28023], [24191, 24030], [28145, 22323], [26477,
      24030], [21150, 20844, 23460], [25945, 23460], [22270, 20070, 39302], [20844, 22253],
      [39184, 21381], [23478], [25151, 38388], [23458, 21381], [21351, 23460], [21416,
      25151], [37324, 38754], [22806, 38754], [19978, 38754], [19979, 38754], [21069,
      38754], [21518, 38754], [24038, 36793], [21491, 36793], [26049, 36793], [38468,
      36817], [36828, 22788]]"

definition initial_pronouns :: "pystr list" where
  "initial_pronouns =
     [[25105], [20320], [20182], [22905], [23427], [25105, 20204], [20320, 20204], [20182,
      20204], [22905, 20204], [36825], [37027], [35841], [20160, 20040], [21738, 37324],
      [20160, 20040, 26102, 20505], [24590, 20040], [22823, 23478], [21035, 20154], [33258,
      24049], [21508, 33258], [20114, 30456]]"

definition initial_verbs :: "pystr list" where
  "initial_verbs =
     [[26469], [21435], [30475], [21548], [35828], [20570], [21507], [21917], [23398],
      [25945], [24110], [21916, 27426], [29233], [24680], [24819], [35201], [20080],
      [21334], [35835], [20889], [29609], [24037, 20316], [20241, 24687], [24320, 22987],
      [32467, 26463], [32487, 32493], [20572, 27490], [31561, 24453], [23547, 25214],
      [35748, 35782], [20102, 35299], [30456, 20449], [24576, 30097], [30693, 36947],
      [26126, 30333], [32473], [25343], [25918], [24102], [36865], [25343, 36208], [25918,
      19979], [36208], [36305], [39134], [36339], [29228], [22352], [31449], [36538]]"

definition initial_nouns :: "pystr list" where
  "initial_nouns =
     [[20070], [31508], [26479, 23376], [26700, 23376], [26885, 23376], [25163, 26426],
      [30005, 33041], [39277], [33756], [27700], [26700, 23376], [26479, 23376], [26479,
      23376], [22920, 22920], [29240, 29240], [21733, 21733], [22992, 22992], [24351,
      24351], [22969, 22969], [26379, 21451], [32769, 24072], [23398, 29983], [21307,
      29983], [25252, 22763], [35686, 23519], [34915, 26381], [38795, 23376], [24125,
      23376], [35044, 23376], [34915, 26381], [36710], [20844, 20132, 36710], [28779,
      36710], [39134, 26426], [33337], [22825, 31354], [22826, 38451], [26376, 20142],
      [26143, 26143], [20113], [38632], [38634]]"

definition new_processor :: "sign_language \<Rightarrow> grammar_processor" where
  \<comment> \<open>\<open>SignGrammarProcessor(sign_language)\<close>\<close>
  "new_processor lang =
     \<lparr>gp_sign_language = lang,
      time_expressions = set initial_time_expressions,
      place_expressions = set initial_place_expressions,
      pronouns = set initial_pronouns,
      verbs = set initial_verbs,
      nouns = set initial_nouns\<rparr>"

text \<open>All the words a structure holds, with their multiplicities.\<close>

definition structure_words :: "sentence_structure \<Rightarrow> pystr multiset" where
  "structure_words st =
     mset (st_time st) + mset (st_place st) + mset (st_subject st) + mset (st_verb st) +
     mset (st_object st) + mset (st_other st)"

section \<open>Speaker database: verification\<close>

text \<open>
  \<open>utils/speaker_db.py\<close>, \<open>SpeakerDatabase.verify_speaker\<close>. An embedding is an array of
  NumPy, a value of the type \<open>'v\<close>. The three computations of NumPy on embeddings enter
  as the record \<open>vector_numerics\<close>; each returns its value or raises. (A product that is
  not a scalar makes the formatting of the log line raise, and nothing is returned in
  between: it is a product that raises here.) The comparisons \<open>query_norm > 0\<close> and
  \<open>similarity >= threshold\<close> are those of the floating-point values. Of the profile and of
  the database the method reads the embedding and the index only.
\<close>

record 'v speaker_profile =
  sp_id :: pystr
  sp_name :: pystr
  sp_embedding :: "'v option"

record 'v speaker_database =
  speakers_index :: "pystr \<rightharpoonup> 'v speaker_profile"

record 'v vector_numerics =
  np_linalg_norm :: "'v \<Rightarrow> exn + fpval"
    \<comment> \<open>\<open>np.linalg.norm(query_embedding)\<close>\<close>
  np_divide :: "'v \<Rightarrow> fpval \<Rightarrow> exn + 'v"
    \<comment> \<open>\<open>query_embedding / query_norm\<close>\<close>
  np_dot :: "'v \<Rightarrow> 'v \<Rightarrow> exn + fpval"
    \<comment> \<open>\<open>np.dot(query_embedding, profile.embedding)\<close>\<close>
  similarity_4f :: "fpval \<Rightarrow> pystr"
    \<comment> \<open>\<open>format(similarity, '.4f')\<close>\<close>

definition str_of_bool :: "bool \<Rightarrow> pystr" where
  "str_of_bool b = (if b then [84, 114, 117, 101] else [70, 97, 108, 115, 101])"

definition verified_message :: "'v vector_numerics \<Rightarrow> pystr \<Rightarrow> fpval \<Rightarrow> bool \<Rightarrow> pystr" where
  \<comment> \<open>the text given to \<open>logger.info\<close>: the id, the similarity and the verdict\<close>
  "verified_message np speaker_id similarity is_match =
     [35828, 35805, 20154, 39564, 35777, 58, 32] @ speaker_id @
     [44, 32, 30456, 20284, 24230, 61] @ similarity_4f np similarity @
     [44, 32, 32467, 26524, 61] @ str_of_bool is_match"

definition verify_failed_prefix :: pystr where
  \<comment> \<open>"speaker verification failed: ", in Chinese\<close>
  "verify_failed_prefix = [35828, 35805, 20154, 39564, 35777, 22833, 36133, 58, 32]"

text \<open>The body of the \<open>try\<close> block.\<close>

definition verify_speaker_try ::
  "py_logger \<Rightarrow> 'v vector_numerics \<Rightarrow> 'v speaker_database \<Rightarrow> pystr \<Rightarrow> 'v \<Rightarrow> fpval \<Rightarrow>
   exn + bool \<times> fpval" where
  "verify_speaker_try logger np db speaker_id query_embedding threshold =
     (case speakers_index db speaker_id of
        None \<Rightarrow> Inr (False, Fin 0.0)
      | Some profile \<Rightarrow>
          (case sp_embedding profile of
             None \<Rightarrow> Inr (False, Fin 0.0)
           | Some embedding \<Rightarrow>
               (case np_linalg_norm np query_embedding of
                  Inl e \<Rightarrow> Inl e
                | Inr query_norm \<Rightarrow>
                    (case (if f_lt (Fin 0) query_norm
                           then np_divide np query_embedding query_norm
                           else Inr query_embedding) of
                       Inl e \<Rightarrow> Inl e
                     | Inr query \<Rightarrow>
                         (case np_dot np query embedding of
                            Inl e \<Rightarrow> Inl e
                          | Inr similarity \<Rightarrow>
                              (let is_match = f_le threshold similarity
                               in case log_info logger
                                         (verified_message np speaker_id similarity is_match) of
                                    Some e \<Rightarrow> Inl e
                                  | None \<Rightarrow> Inr (is_match, similarity)))))))"

text \<open>The method: the \<open>except\<close> clause logs the exception and returns \<open>(False, 0.0)\<close>; an
  exception of that logging is the only one that leaves the method.\<close>

definition verify_speaker ::
  "py_logger \<Rightarrow> 'v vector_numerics \<Rightarrow> 'v speaker_database \<Rightarrow> pystr \<Rightarrow> 'v \<Rightarrow> fpval \<Rightarrow>
   exn + bool \<times> fpval" where
  "verify_speaker logger np db speaker_id query_embedding threshold =
     (case verify_speaker_try logger np db speaker_id query_embedding threshold of
        Inr r \<Rightarrow> Inr r
      | Inl e \<Rightarrow>
          (case log_error logger (verify_failed_prefix @ exn_str e) of
             Some e2 \<Rightarrow> Inl e2
           | None \<Rightarrow> Inr (False, Fin 0.0)))"

text \<open>Example values: embeddings as lists of floating-point values with the arithmetic that
  does not round, where \<open>np.linalg.norm\<close> is the square root of the product of the vector
  with itself and \<open>np.dot\<close> of two vectors of different lengths raises \<open>ValueError\<close>; and a
  database with speaker \<open>a\<close>, whose stored embedding is \<open>[1, 0]\<close>, and speaker \<open>b\<close>, who has
  no embedding yet.\<close>

definition unrounded_dot :: "fpval list \<Rightarrow> fpval list \<Rightarrow> fpval" where
  "unrounded_dot a b =
     fold (\<lambda>(x, y) acc. unrounded_plus acc (unrounded_times x y)) (zip a b) (Fin 0)"

definition example_dot :: "fpval list \<Rightarrow> fpval list \<Rightarrow> exn + fpval" where
  "example_dot a b =
     (if length a = length b then Inr (unrounded_dot a b)
      else Inl (PyError [86, 97, 108, 117, 101, 69, 114, 114, 111, 114] []))"

definition example_vectors :: "fpval list vector_numerics" where
  "example_vectors =
     \<lparr>np_linalg_norm = (\<lambda>v. Inr (unrounded_sqrt (unrounded_dot v v))),
      np_divide = (\<lambda>v n. Inr (map (\<lambda>x. unrounded_divide x n) v)),
      np_dot = example_dot,
      similarity_4f = (\<lambda>x. [])\<rparr>"

definition two_speakers :: "fpval list speaker_database" where
  "two_speakers =
     \<lparr>speakers_index = map_of
        [([97], \<lparr>sp_id = [97], sp_name = [65], sp_embedding = Some [Fin 1, Fin 0]\<rparr>),
         ([98], \<lparr>sp_id = [98], sp_name = [66], sp_embedding = None\<rparr>)]\<rparr>"

section \<open>Properties\<close>

subsection \<open>Language detection\<close>

lemma dropWhile_all_Nil:
  assumes "\<forall>c\<in>set (dropWhile P s). P c"
  shows "dropWhile P s = []"
proof (cases "dropWhile P s")
  case Nil
  then show ?thesis .
next
  case (Cons x xs)
  then have "\<not> P x" using hd_dropWhile [of P s] by simp
  moreover have "x \<in> set (dropWhile P s)" unfolding Cons by simp
  ultimately show ?thesis using assms by blast
qed

lemma strip_empty_iff: "strip s = [] \<longleftrightarrow> (\<forall>c\<in>set s. py_isspace c)"
proof
  assume "strip s = []"
  then have "\<forall>c\<in>set (dropWhile py_isspace s). py_isspace c"
    unfolding strip_def by (simp only: rev_is_Nil_conv dropWhile_eq_Nil_conv set_rev)
  then have "dropWhile py_isspace s = []" by (rule dropWhile_all_Nil)
  then show "\<forall>c\<in>set s. py_isspace c" by (simp only: dropWhile_eq_Nil_conv)
next
  assume "\<forall>c\<in>set s. py_isspace c"
  then have "dropWhile py_isspace s = []" by (simp only: dropWhile_eq_Nil_conv)
  then show "strip s = []" unfolding strip_def by (simp only: rev.simps dropWhile.simps)
qed

text \<open>
  C1. For every text given to \<open>detect_language\<close>: if the text is empty or consists of
  whitespace only, the call fails with an HTTP 400 error; otherwise, if some character
  lies in U+4E00..U+9FFF the result has \<open>detected_language = "zh"\<close> and confidence 0.95,
  and else it has \<open>detected_language = "en"\<close> and confidence 0.88.
\<close>

theorem detect_language_spec:
  "((\<forall>c\<in>set t. py_isspace c) \<longrightarrow>
      detect_language t = Inl (HTTPException 400 detail_empty_text)) \<and>
   (\<not> (\<forall>c\<in>set t. py_isspace c) \<and> (\<exists>c\<in>set t. 0x4E00 \<le> c \<and> c \<le> 0x9FFF) \<longrightarrow>
      (\<exists>r. detect_language t = Inr r \<and> det_success r \<and> det_text r = t \<and>
           detected_language r = [122, 104] \<and> confidence r = 0.95)) \<and>
   (\<not> (\<forall>c\<in>set t. py_isspace c) \<and> \<not> (\<exists>c\<in>set t. 0x4E00 \<le> c \<and> c \<le> 0x9FFF) \<longrightarrow>
      (\<exists>r. detect_language t = Inr r \<and> det_success r \<and> det_text r = t \<and>
           detected_language r = [101, 110] \<and> confidence r = 0.88))"
  unfolding detect_language_def strip_empty_iff list_ex_iff is_cjk_def
  by auto

theorem detect_language_spec_witness:
  "list_all py_isspace [32, 9] \<and>
   detect_language [32, 9] = Inl (HTTPException 400 detail_empty_text) \<and>
   detect_language [] = Inl (HTTPException 400 detail_empty_text) \<and>
   \<not> (\<forall>c\<in>set [20320, 22909]. py_isspace c) \<and>
   (\<exists>c\<in>set [20320, 22909]. 0x4E00 \<le> c \<and> c \<le> (0x9FFF::nat)) \<and>
   (\<exists>r. detect_language [20320, 22909] = Inr r \<and> detected_language r = [122, 104] \<and>
        confidence r = 0.95) \<and>
   \<not> (\<forall>c\<in>set [104, 101, 108, 108, 111, 32, 119, 111, 114, 108, 100]. py_isspace c) \<and>
   \<not> (\<exists>c\<in>set [104, 101, 108, 108, 111, 32, 119, 111, 114, 108, 100].
        0x4E00 \<le> c \<and> c \<le> (0x9FFF::nat)) \<and>
   (\<exists>r. detect_language [104, 101, 108, 108, 111, 32, 119, 111, 114, 108, 100] = Inr r \<and>
        detected_language r = [101, 110] \<and> confidence r = 0.88)"
  using detect_language_spec [of "[32, 9]"] detect_language_spec [of "[]"]
    detect_language_spec [of "[20320, 22909]"]
    detect_language_spec [of "[104, 101, 108, 108, 111, 32, 119, 111, 114, 108, 100]"]
  by (auto simp: py_isspace_def)

subsection \<open>Connection manager\<close>

lemma broadcast_loop_fst:
  "fst (broadcast_loop msg ex cs) =
     map fst (filter (\<lambda>(c, ws). \<not> is_excluded ex c \<and> ws_send_json ws \<noteq> None) cs)"
  by (induction cs) (auto split: option.splits if_splits)

lemma broadcast_loop_snd:
  "snd (broadcast_loop msg ex cs) =
     map (\<lambda>(c, ws). (c, msg)) (filter (\<lambda>(c, ws). \<not> is_excluded ex c \<and> ws_send_json ws = None) cs)"
  by (induction cs) (auto split: option.splits if_splits)

lemma is_connected_iff: "is_connected c m \<longleftrightarrow> c \<in> fst ` set (active_connections m)"
  by (simp add: is_connected_def map_of_eq_None_iff)

lemma delete_eq_filter: "AList.delete k al = filter (\<lambda>(c, w). c \<noteq> k) al"
  by (induction al) auto

lemma active_disconnect:
  "active_connections (disconnect d m) = filter (\<lambda>(c, w). c \<noteq> d) (active_connections m)"
proof (cases "is_connected d m")
  case True
  then show ?thesis by (simp add: disconnect_def delete_eq_filter)
next
  case False
  then have "\<forall>p\<in>set (active_connections m). fst p \<noteq> d"
    by (auto simp: is_connected_iff)
  then have "filter (\<lambda>(c, w). c \<noteq> d) (active_connections m) = active_connections m"
    by (intro filter_True) auto
  with False show ?thesis by (simp add: disconnect_def)
qed

lemma active_fold_disconnect:
  "active_connections (fold disconnect ds m) =
     filter (\<lambda>(c, w). c \<notin> set ds) (active_connections m)"
proof (induction ds arbitrary: m)
  case Nil
  then show ?case by simp
next
  case (Cons d ds)
  have "filter (\<lambda>(c, w). c \<notin> set ds) (filter (\<lambda>(c, w). c \<noteq> d) (active_connections m)) =
        filter (\<lambda>(c, w). c \<notin> set (d # ds)) (active_connections m)"
    by (auto intro: filter_cong)
  then show ?case by (simp add: Cons.IH active_disconnect)
qed

lemma count_fold_disconnect:
  "distinct ds \<Longrightarrow> set ds \<subseteq> fst ` set (active_connections m) \<Longrightarrow>
   connection_count (fold disconnect ds m) = connection_count m - int (length ds)"
proof (induction ds arbitrary: m)
  case Nil
  then show ?case by simp
next
  case (Cons d ds)
  from Cons.prems have d: "is_connected d m" by (simp add: is_connected_iff)
  have "set ds \<subseteq> fst ` set (active_connections (disconnect d m))"
    using Cons.prems by (force simp: active_disconnect)
  with Cons.prems Cons.IH [of "disconnect d m"]
  have "connection_count (fold disconnect ds (disconnect d m)) =
        connection_count (disconnect d m) - int (length ds)" by simp
  moreover have "connection_count (disconnect d m) = connection_count m - 1"
    using d by (simp add: disconnect_def)
  ultimately show ?case by simp
qed


lemma distinct_map_fst_filter: "distinct (map fst cs) \<Longrightarrow> distinct (map fst (filter P cs))"
  by (induction cs) auto

lemma length_filter_exclude:
  assumes "distinct (map fst cs)" "x \<in> fst ` set cs"
  shows "length (filter (\<lambda>(c, ws). c \<noteq> x) cs) = length cs - 1"
  using assms
proof (induction cs)
  case Nil
  then show ?case by simp
next
  case (Cons p cs)
  show ?case
  proof (cases "fst p = x")
    case True
    have "fst p \<notin> fst ` set cs" using Cons.prems(1) by simp
    then have "\<forall>q\<in>set cs. fst q \<noteq> fst p" by (metis image_eqI)
    then have "\<forall>q\<in>set cs. fst q \<noteq> x" unfolding True .
    then have "filter (\<lambda>(c, ws). c \<noteq> x) cs = cs"
      by (intro filter_True) auto
    with True show ?thesis by (cases p) simp
  next
    case False
    with Cons.prems have "x \<in> fst ` set cs" "distinct (map fst cs)" by auto
    with Cons.IH have "length (filter (\<lambda>(c, ws). c \<noteq> x) cs) = length cs - 1" by simp
    moreover have "cs \<noteq> []" using \<open>x \<in> fst ` set cs\<close> by auto
    ultimately show ?thesis using False by (cases p) (simp add: Suc_diff_le Suc_leI)
  qed
qed

lemma connect_keeps_distinct:
  "distinct (map fst (active_connections m)) \<Longrightarrow> connect ws c m = Inr m' \<Longrightarrow>
   distinct (map fst (active_connections m'))"
  by (auto simp: connect_def distinct_update split: option.splits)

lemma disconnect_keeps_distinct:
  "distinct (map fst (active_connections m)) \<Longrightarrow>
   distinct (map fst (active_connections (disconnect c m)))"
  by (simp add: disconnect_def distinct_delete)

text \<open>
  C2 (amended). Starting from the empty manager, \<open>connect\<close> followed by \<open>disconnect\<close> of the
  same client id leaves \<open>get_connection_count\<close> at 0 and the id not connected.
  \<open>send_personal_message\<close> to an id that is not connected returns \<open>False\<close>, raises nothing,
  sends nothing and leaves the manager as it was. When the excluded id \<open>x\<close> is a non-empty
  string and is one of the \<open>N\<close> connected ids, \<open>broadcast\<close> attempts a send on each of the
  other \<open>N - 1\<close> connections: the message reaches every one of them whose send completes
  (\<open>ok\<close>), the ones whose send raises (\<open>bad\<close>) are removed once the loop is over, and the
  count drops by their number; a failing send stops nothing.
\<close>

theorem connection_registry_lifecycle:
  "(let m' = (case connect ws cid manager_init of
               Inr m1 \<Rightarrow> disconnect cid m1 | Inl e \<Rightarrow> disconnect cid manager_init)
    in get_connection_count m' = 0 \<and> \<not> is_connected cid m') \<and>
   (\<not> is_connected cid m \<longrightarrow> send_personal_message msg cid m = (False, m, [])) \<and>
   (distinct (map fst (active_connections m)) \<and> x \<noteq> [] \<and> is_connected x m \<longrightarrow>
     (let cs = active_connections m;
          ok = filter (\<lambda>(c, ws). c \<noteq> x \<and> ws_send_json ws = None) cs;
          bad = filter (\<lambda>(c, ws). c \<noteq> x \<and> ws_send_json ws \<noteq> None) cs
      in snd (broadcast msg (Some x) m) = map (\<lambda>(c, ws). (c, msg)) ok \<and>
         length ok + length bad = length cs - 1 \<and>
         active_connections (fst (broadcast msg (Some x) m)) =
           filter (\<lambda>(c, ws). c = x \<or> ws_send_json ws = None) cs \<and>
         connection_count (fst (broadcast msg (Some x) m)) =
           connection_count m - int (length bad)))"
proof (intro conjI impI)
  show "let m' = (case connect ws cid manager_init of
               Inr m1 \<Rightarrow> disconnect cid m1 | Inl e \<Rightarrow> disconnect cid manager_init)
    in get_connection_count m' = 0 \<and> \<not> is_connected cid m'"
    by (cases "ws_accept ws")
       (simp_all add: connect_def manager_init_def disconnect_def is_connected_def
          get_connection_count_def delete_eq_filter)
next
  assume "\<not> is_connected cid m"
  then show "send_personal_message msg cid m = (False, m, [])"
    by (simp add: send_personal_message_def is_connected_def)
next
  assume a: "distinct (map fst (active_connections m)) \<and> x \<noteq> [] \<and> is_connected x m"
  define cs where "cs = active_connections m"
  define ok where "ok = filter (\<lambda>(c, ws). c \<noteq> x \<and> ws_send_json ws = None) cs"
  define bad where "bad = filter (\<lambda>(c, ws). c \<noteq> x \<and> ws_send_json ws \<noteq> None) cs"
  from a have dist: "distinct (map fst cs)" and x: "x \<noteq> []" and xin: "x \<in> fst ` set cs"
    by (simp_all add: cs_def is_connected_iff)
  have ex: "is_excluded (Some x) c \<longleftrightarrow> c = x" for c
    using x by (auto simp: is_excluded_def)
  have f: "fst (broadcast_loop msg (Some x) cs) = map fst bad"
    unfolding broadcast_loop_fst bad_def ex by (simp add: eq_commute)
  have s: "snd (broadcast_loop msg (Some x) cs) = map (\<lambda>(c, ws). (c, msg)) ok"
    unfolding broadcast_loop_snd ok_def ex by (simp add: eq_commute)
  have "length ok + length bad =
        length (filter (\<lambda>(c, ws). c \<noteq> x) cs)"
    unfolding ok_def bad_def by (induction cs) auto
  then have len: "length ok + length bad = length cs - 1"
    using length_filter_exclude [OF dist xin] by simp
  have dbad: "distinct (map fst bad)"
    unfolding bad_def using dist by (rule distinct_map_fst_filter)
  have sub: "set (map fst bad) \<subseteq> fst ` set (active_connections m)"
    unfolding bad_def cs_def by auto
  have "(c \<notin> set (map fst bad)) = (c = x \<or> ws_send_json w = None)" if "(c, w) \<in> set cs" for c w
  proof
    assume "c \<notin> set (map fst bad)"
    then have "(c, w) \<notin> set bad" by force
    with that show "c = x \<or> ws_send_json w = None" by (auto simp: bad_def)
  next
    assume r: "c = x \<or> ws_send_json w = None"
    show "c \<notin> set (map fst bad)"
    proof
      assume "c \<in> set (map fst bad)"
      then obtain w' where w': "(c, w') \<in> set bad" by auto
      then have "(c, w') \<in> set cs" by (simp add: bad_def)
      with that dist have "w' = w" by (meson eq_key_imp_eq_value)
      with w' r show False by (auto simp: bad_def)
    qed
  qed
  then have "\<forall>p\<in>set cs. (case p of (c, ws) \<Rightarrow> c \<notin> set (map fst bad)) =
                         (case p of (c, ws) \<Rightarrow> c = x \<or> ws_send_json ws = None)"
    by (metis (mono_tags, lifting) case_prod_conv surj_pair)
  then have "filter (\<lambda>(c, ws). c \<notin> set (map fst bad)) cs =
             filter (\<lambda>(c, ws). c = x \<or> ws_send_json ws = None) cs"
    by (intro filter_cong) simp_all
  then have act: "active_connections (fst (broadcast msg (Some x) m)) =
           filter (\<lambda>(c, ws). c = x \<or> ws_send_json ws = None) cs"
    by (simp add: broadcast_def Let_def f [unfolded cs_def] active_fold_disconnect cs_def)
  have cnt: "connection_count (fst (broadcast msg (Some x) m)) =
           connection_count m - int (length bad)"
    using count_fold_disconnect [OF dbad sub]
    by (simp add: broadcast_def Let_def f [unfolded cs_def])
  have snt: "snd (broadcast msg (Some x) m) = map (\<lambda>(c, ws). (c, msg)) ok"
    by (simp add: broadcast_def Let_def s [unfolded cs_def])
  show "let cs = active_connections m;
          ok = filter (\<lambda>(c, ws). c \<noteq> x \<and> ws_send_json ws = None) cs;
          bad = filter (\<lambda>(c, ws). c \<noteq> x \<and> ws_send_json ws \<noteq> None) cs
      in snd (broadcast msg (Some x) m) = map (\<lambda>(c, ws). (c, msg)) ok \<and>
         length ok + length bad = length cs - 1 \<and>
         active_connections (fst (broadcast msg (Some x) m)) =
           filter (\<lambda>(c, ws). c = x \<or> ws_send_json ws = None) cs \<and>
         connection_count (fst (broadcast msg (Some x) m)) =
           connection_count m - int (length bad)"
    unfolding Let_def using snt len act cnt
    by (simp only: cs_def [symmetric] ok_def [symmetric] bad_def [symmetric])
qed


theorem connection_registry_lifecycle_witness:
  "\<not> is_connected [100] three_clients \<and>
   send_personal_message (7::nat) [100] three_clients = (False, three_clients, []) \<and>
   distinct (map fst (active_connections three_clients)) \<and> [97] \<noteq> ([]::pystr) \<and>
   is_connected [97] three_clients \<and>
   snd (broadcast (7::nat) (Some [97]) three_clients) = [([99], 7)] \<and>
   active_connections (fst (broadcast (7::nat) (Some [97]) three_clients)) =
     [([97], socket 1 None), ([99], socket 3 None)] \<and>
   connection_count (fst (broadcast (7::nat) (Some [97]) three_clients)) = 2"
proof -
  note t = connection_registry_lifecycle [where ws = "socket 1 None" and cid = "[100]"
      and m = three_clients and msg = "7::nat" and x = "[97]"]
  have h1: "\<not> is_connected [100] three_clients"
    by (simp add: is_connected_def three_clients_def)
  have h2: "distinct (map fst (active_connections three_clients)) \<and> [97] \<noteq> ([]::pystr) \<and>
      is_connected [97] three_clients"
    by (simp add: is_connected_def three_clients_def)
  from t h1 have a: "send_personal_message (7::nat) [100] three_clients = (False, three_clients, [])"
    by blast
  from t h2 have
    "(let cs = active_connections three_clients;
          ok = filter (\<lambda>(c, ws). c \<noteq> [97] \<and> ws_send_json ws = None) cs;
          bad = filter (\<lambda>(c, ws). c \<noteq> [97] \<and> ws_send_json ws \<noteq> None) cs
      in snd (broadcast (7::nat) (Some [97]) three_clients) = map (\<lambda>(c, ws). (c, 7)) ok \<and>
         length ok + length bad = length cs - 1 \<and>
         active_connections (fst (broadcast (7::nat) (Some [97]) three_clients)) =
           filter (\<lambda>(c, ws). c = [97] \<or> ws_send_json ws = None) cs \<and>
         connection_count (fst (broadcast (7::nat) (Some [97]) three_clients)) =
           connection_count three_clients - int (length bad))"
    by blast
  then have b: "snd (broadcast (7::nat) (Some [97]) three_clients) = [([99], 7)] \<and>
   active_connections (fst (broadcast (7::nat) (Some [97]) three_clients)) =
     [([97], socket 1 None), ([99], socket 3 None)] \<and>
   connection_count (fst (broadcast (7::nat) (Some [97]) three_clients)) = 2"
    by (simp add: Let_def three_clients_def socket_def)
  from h1 a h2 b show ?thesis by blast
qed

text \<open>
  C2 as stated fails for the empty client id: an excluded id that is the empty string
  is treated like no exclusion, so the only connection, although excluded, gets the
  message (one recipient where \<open>N - 1 = 0\<close>).
\<close>

theorem broadcast_exclude_empty_id_counterexample:
  "connect (socket 1 None) [] manager_init =
     Inr \<lparr>active_connections = [([], socket 1 None)], connection_count = 1\<rparr> \<and>
   is_connected [] \<lparr>active_connections = [([], socket 1 None)], connection_count = 1\<rparr> \<and>
   snd (broadcast (7::nat) (Some [])
          \<lparr>active_connections = [([], socket 1 None)], connection_count = 1\<rparr>) = [([], 7)]"
  by (simp add: connect_def manager_init_def is_connected_def broadcast_def is_excluded_def
        socket_def)

subsection \<open>Translation cache\<close>

lemma map_of_update_same: "map_of (AList.update k v al) k = Some v"
  by (simp add: update_conv')

lemma map_of_delete_same: "map_of (AList.delete k al) k = None"
  by (simp add: delete_conv')

lemma min_loop_in: "min_loop best ps \<in> fst ` set (best # ps)"
  by (induction ps arbitrary: best) auto

lemma min_loop_least:
  "\<exists>q\<in>set (best # ps). fst q = min_loop best ps \<and> (\<forall>p\<in>set (best # ps). snd (snd q) \<le> snd (snd p))"
proof (induction ps arbitrary: best)
  case Nil
  then show ?case by simp
next
  case (Cons a ps)
  let ?b = "if snd (snd a) < snd (snd best) then a else best"
  from Cons.IH [of ?b] obtain q where q: "q \<in> set (?b # ps)" "fst q = min_loop ?b ps"
    "\<forall>p\<in>set (?b # ps). snd (snd q) \<le> snd (snd p)" by blast
  from q(3) have qb: "snd (snd q) \<le> snd (snd ?b)" by simp
  have "snd (snd ?b) \<le> snd (snd a)" "snd (snd ?b) \<le> snd (snd best)" by auto
  with qb have "snd (snd q) \<le> snd (snd a)" "snd (snd q) \<le> snd (snd best)" by linarith+
  with q(3) have "\<forall>p\<in>set (best # a # ps). snd (snd q) \<le> snd (snd p)" by auto
  moreover from q(1) have "q \<in> set (best # a # ps)" by (auto split: if_splits)
  ultimately show ?case using q(2) by (intro bexI [of _ q]) simp_all
qed


lemma text_to_sign_hit:
  assumes "generate_key md5 text direction_text_to_sign = Inr key"
    and "map_of (cache (dt_cache t)) key = Some (r, ts)"
    and "at_get clk - ts < real_of_int (ttl (dt_cache t))"
  shows "text_to_sign md5 translate clk text True g rh t = (Inr r, count_hit t)"
  using assms by (simp add: text_to_sign_def cache_get_def)

lemma cache_set_entry:
  assumes "cache_set md5 now text d r c = Inr c'"
  shows "\<exists>key. generate_key md5 text d = Inr key \<and> map_of (cache c') key = Some (r, now) \<and>
           ttl c' = ttl c \<and> cache_size c' = cache_size c"
  using assms
  by (auto simp: cache_set_def map_of_update_same split: sum.splits if_splits)

lemma cache_get_unchanged:
  assumes "cache_get md5 now text d c = Inr (x, c')"
  shows "ttl c' = ttl c \<and> cache_size c' = cache_size c"
  using assms by (auto simp: cache_get_def split: sum.splits option.splits if_splits)

lemma count_simps [simp]:
  "dt_cache (count_hit t) = dt_cache t" "dt_cache (count_miss t) = dt_cache t"
  "dt_cache (count_translation t) = dt_cache t"
  "cache_hits (dt_stats (count_hit t)) = cache_hits (dt_stats t) + 1"
  "cache_misses (dt_stats (count_hit t)) = cache_misses (dt_stats t)"
  "cache_hits (dt_stats (count_miss t)) = cache_hits (dt_stats t)"
  "cache_misses (dt_stats (count_miss t)) = cache_misses (dt_stats t) + 1"
  "cache_hits (dt_stats (count_translation t)) = cache_hits (dt_stats t)"
  "cache_misses (dt_stats (count_translation t)) = cache_misses (dt_stats t)"
  by (simp_all add: count_hit_def count_miss_def count_translation_def)

lemma text_to_sign_returns_entry:
  assumes "text_to_sign md5 translate clk text True g rh t = (Inr r, t')"
  shows "\<exists>key ts. generate_key md5 text direction_text_to_sign = Inr key \<and>
           map_of (cache (dt_cache t')) key = Some (r, ts) \<and>
           ttl (dt_cache t') = ttl (dt_cache t) \<and>
           (ts = at_set clk \<or>
            map_of (cache (dt_cache t)) key = Some (r, ts) \<and>
            at_get clk - ts < real_of_int (ttl (dt_cache t)))"
proof (cases "cache_get md5 (at_get clk) text direction_text_to_sign (dt_cache t)")
  case (Inl e)
  with assms show ?thesis by (simp add: text_to_sign_def)
next
  case (Inr p)
  obtain x c where p: "p = (x, c)" by (cases p)
  from Inr p cache_get_unchanged have tc: "ttl c = ttl (dt_cache t)" by blast
  show ?thesis
  proof (cases x)
    case (Some cached)
    with Inr p assms have r: "cached = r" and t': "t' = count_hit (t\<lparr>dt_cache := c\<rparr>)"
      by (simp_all add: text_to_sign_def)
    from Inr p Some r show ?thesis
      unfolding t' by (auto simp: cache_get_def split: sum.splits option.splits if_splits)
  next
    case None
    with Inr p assms obtain sq c2 where
      sq: "translate text g rh = Inr sq" and r: "r = new_result clk text sq" and
      c2: "cache_set md5 (at_set clk) text direction_text_to_sign r c = Inr c2" and
      t': "dt_cache t' = c2"
      by (auto simp: text_to_sign_def Let_def split: sum.splits)
    from cache_set_entry [OF c2] tc t' show ?thesis by auto
  qed
qed


lemma text_to_sign_expired:
  assumes "generate_key md5 text direction_text_to_sign = Inr key"
    and "map_of (cache (dt_cache t)) key = Some (r, ts)"
    and "\<not> at_get clk - ts < real_of_int (ttl (dt_cache t))"
  shows "text_to_sign md5 translate clk text True g rh t =
         text_to_sign md5 translate clk text True g rh (purged key t)"
  using assms
  by (simp add: text_to_sign_def cache_get_def purged_def map_of_delete_same count_miss_def)

lemma text_to_sign_miss_raises:
  assumes "generate_key md5 text direction_text_to_sign = Inr key"
    and "map_of (cache (dt_cache t)) key = None"
    and "translate text g rh = Inl e"
  shows "text_to_sign md5 translate clk text True g rh t = (Inl e, count_miss t)"
  using assms by (simp add: text_to_sign_def cache_get_def)

lemma oldest_key_nonempty: "al \<noteq> [] \<Longrightarrow> \<exists>k. oldest_key al = Inr k"
  by (cases al) (simp_all add: oldest_key_def)

lemma cache_set_returns:
  assumes "generate_key md5 text d = Inr key" and "1 \<le> cache_size c"
  shows "\<exists>c'. cache_set md5 now text d r c = Inr c'"
proof (cases "int (length (cache c)) \<ge> cache_size c")
  case True
  with assms(2) have "cache c \<noteq> []" by auto
  from oldest_key_nonempty [OF this] obtain k where "oldest_key (cache c) = Inr k" ..
  with assms(1) True show ?thesis by (simp add: cache_set_def)
next
  case False
  with assms(1) show ?thesis by (simp add: cache_set_def)
qed

lemma text_to_sign_miss_returns:
  assumes "generate_key md5 text direction_text_to_sign = Inr key"
    and "map_of (cache (dt_cache t)) key = None"
    and "translate text g rh = Inr sq"
    and "1 \<le> cache_size (dt_cache t)"
  shows "\<exists>t'. text_to_sign md5 translate clk text True g rh t = (Inr (new_result clk text sq), t') \<and>
           map_of (cache (dt_cache t')) key = Some (new_result clk text sq, at_set clk) \<and>
           cache_misses (dt_stats t') = cache_misses (dt_stats t) + 1 \<and>
           cache_hits (dt_stats t') = cache_hits (dt_stats t)"
proof -
  from cache_set_returns [OF assms(1), of "dt_cache t" "at_set clk" "new_result clk text sq"] assms(4)
  obtain c' where c': "cache_set md5 (at_set clk) text direction_text_to_sign
      (new_result clk text sq) (dt_cache t) = Inr c'" by blast
  from cache_set_entry [OF c'] assms(1)
  have "map_of (cache c') key = Some (new_result clk text sq, at_set clk)" by auto
  with assms c' show ?thesis
    by (simp add: text_to_sign_def cache_get_def Let_def)
qed


lemma cache_set_evicts:
  assumes key: "generate_key md5 text d = Inr key"
    and dist: "distinct (map fst (cache c))"
    and full: "int (length (cache c)) \<ge> cache_size c"
    and ne: "cache c \<noteq> []"
  shows "\<exists>k v ts. (k, v, ts) \<in> set (cache c) \<and> (\<forall>p\<in>set (cache c). ts \<le> snd (snd p)) \<and>
           cache_set md5 now text d r c =
             Inr (c\<lparr>cache := AList.update key (r, now) (AList.delete k (cache c))\<rparr>) \<and>
           set (AList.delete k (cache c)) = set (cache c) - {(k, v, ts)} \<and>
           length (AList.delete k (cache c)) = length (cache c) - 1"
proof -
  from ne obtain b ps where al: "cache c = b # ps" by (cases "cache c") auto
  from min_loop_least [of b ps] obtain q where q: "q \<in> set (cache c)"
    "fst q = min_loop b ps" "\<forall>p\<in>set (cache c). snd (snd q) \<le> snd (snd p)"
    unfolding al by blast
  obtain k v ts where qq: "q = (k, v, ts)" by (cases q) auto
  have ok: "oldest_key (cache c) = Inr k" using q(2) qq by (simp add: oldest_key_def al)
  have kin: "k \<in> fst ` set (cache c)" using q(1) qq by force
  have "set (AList.delete k (cache c)) = set (cache c) - {(k, v, ts)}"
  proof (intro set_eqI iffI)
    fix p assume "p \<in> set (AList.delete k (cache c))"
    then have "p \<in> set (cache c)" "fst p \<noteq> k" by (auto simp: delete_eq_filter)
    then show "p \<in> set (cache c) - {(k, v, ts)}" by auto
  next
    fix p assume p: "p \<in> set (cache c) - {(k, v, ts)}"
    have "fst p \<noteq> k"
    proof
      assume "fst p = k"
      then have "(k, snd p) \<in> set (cache c)" using p by (metis DiffD1 prod.collapse)
      moreover have "(k, (v, ts)) \<in> set (cache c)" using q(1) qq by simp
      ultimately have "snd p = (v, ts)" using dist by (meson eq_key_imp_eq_value)
      with \<open>fst p = k\<close> p show False by (cases p) auto
    qed
    with p show "p \<in> set (AList.delete k (cache c))" by (auto simp: delete_eq_filter)
  qed
  moreover have "length (AList.delete k (cache c)) = length (cache c) - 1"
    unfolding delete_eq_filter by (rule length_filter_exclude [OF dist kin])
  moreover have "cache_set md5 now text d r c =
      Inr (c\<lparr>cache := AList.update key (r, now) (AList.delete k (cache c))\<rparr>)"
    using key full ok by (simp add: cache_set_def)
  ultimately show ?thesis using q(1) q(3) qq by (intro exI [of _ k] exI [of _ v] exI [of _ ts]) simp
qed

lemma length_update_le: "length (AList.update k v al) \<le> Suc (length al)"
  by (induction al) auto

lemma cache_set_ok:
  assumes "cache_ok c" and "cache_set md5 now text d r c = Inr c'"
  shows "cache_ok c'"
proof (cases "generate_key md5 text d")
  case (Inl e)
  with assms(2) show ?thesis by (simp add: cache_set_def)
next
  case (Inr key)
  show ?thesis
  proof (cases "int (length (cache c)) \<ge> cache_size c")
    case True
    with Inr assms(2) obtain k where k: "oldest_key (cache c) = Inr k"
      and c': "c' = c\<lparr>cache := AList.update key (r, now) (AList.delete k (cache c))\<rparr>"
      by (auto simp: cache_set_def split: sum.splits)
    from k obtain b ps where al: "cache c = b # ps" and kk: "k = min_loop b ps"
      by (auto simp: oldest_key_def split: list.splits)
    have kin: "k \<in> fst ` set (cache c)" unfolding al kk by (rule min_loop_in)
    from assms(1) have dist: "distinct (map fst (cache c))" by (simp add: cache_ok_def)
    have "length (AList.delete k (cache c)) = length (cache c) - 1"
      unfolding delete_eq_filter by (rule length_filter_exclude [OF dist kin])
    moreover have "length (cache c) \<ge> 1" by (simp add: al)
    ultimately have "length (AList.update key (r, now) (AList.delete k (cache c))) \<le> length (cache c)"
      using length_update_le [of key "(r, now)" "AList.delete k (cache c)"] by linarith
    with assms(1) dist show ?thesis
      by (simp add: c' cache_ok_def distinct_update distinct_delete)
  next
    case False
    with Inr assms(2) have c': "c' = c\<lparr>cache := AList.update key (r, now) (cache c)\<rparr>"
      by (simp add: cache_set_def)
    from False length_update_le [of key "(r, now)" "cache c"]
    have "int (length (AList.update key (r, now) (cache c))) \<le> cache_size c" by linarith
    with assms(1) show ?thesis by (simp add: c' cache_ok_def distinct_update)
  qed
qed

lemma cache_get_ok:
  assumes "cache_ok c" and "cache_get md5 now text d c = Inr (x, c')"
  shows "cache_ok c'"
proof -
  have "int (length (AList.delete k (cache c))) \<le> cache_size c" for k
    using assms(1) length_delete_le [of k "cache c"] by (simp add: cache_ok_def)
  with assms show ?thesis
    by (auto simp: cache_get_def cache_ok_def distinct_delete
        split: sum.splits option.splits if_splits)
qed

lemma text_to_sign_ok:
  assumes "cache_ok (dt_cache t)"
  shows "cache_ok (dt_cache (snd (text_to_sign md5 translate clk text uc g rh t)))"
proof (cases uc)
  case False
  with assms show ?thesis
    by (simp add: text_to_sign_def Let_def split: sum.splits)
next
  case True
  show ?thesis
  proof (cases "cache_get md5 (at_get clk) text direction_text_to_sign (dt_cache t)")
    case (Inl e)
    with True assms show ?thesis by (simp add: text_to_sign_def)
  next
    case (Inr p)
    obtain x c where p: "p = (x, c)" by (cases p)
    from cache_get_ok [OF assms] Inr p have c: "cache_ok c" by blast
    show ?thesis
    proof (cases x)
      case (Some a)
      with True Inr p c show ?thesis by (simp add: text_to_sign_def)
    next
      case None
      show ?thesis
      proof (cases "translate text g rh")
        case (Inl e)
        with True Inr p None c show ?thesis by (simp add: text_to_sign_def)
      next
        case sq: (Inr sq)
        show ?thesis
        proof (cases "cache_set md5 (at_set clk) text direction_text_to_sign
                        (new_result clk text sq) c")
          case (Inl e)
          with True Inr p None c sq show ?thesis by (simp add: text_to_sign_def Let_def)
        next
          case c2: (Inr c2)
          from cache_set_ok [OF c c2] have "cache_ok c2" .
          with True Inr p None sq c2 show ?thesis by (simp add: text_to_sign_def Let_def)
        qed
      qed
    qed
  qed
qed


text \<open>
  C3 (amended). With caching requested (\<open>use_cache = True\<close>): when a call of \<open>text_to_sign\<close>
  returns a result, the cache holds that result under the key of the text, and every
  later call with the same arguments whose lookup is within the TTL of that entry's
  timestamp returns the identical result and changes nothing but \<open>cache_hits\<close>, which goes
  up by one. A lookup that finds an entry whose age is the TTL or more behaves like a
  lookup in the cache without that entry (the entry is purged): \<open>cache_misses\<close> goes up by
  one, \<open>cache_hits\<close> stays, the translation is computed again and, with a capacity of at
  least 1, stored under the key with the new timestamp. An insertion into a cache that
  holds exactly \<open>cache_size \<ge> 1\<close> entries evicts exactly one entry, one whose timestamp is
  the least, before it stores the new one; and neither \<open>cache.set\<close> nor \<open>text_to_sign\<close>
  ever leaves more than \<open>cache_size\<close> entries in a cache that had at most that many.
\<close>

theorem translation_cache_behaviour:
  "(text_to_sign md5 translate clk1 text True g rh t = (Inr r, t1) \<longrightarrow>
      (\<exists>key ts. generate_key md5 text direction_text_to_sign = Inr key \<and>
         map_of (cache (dt_cache t1)) key = Some (r, ts) \<and>
         (\<forall>clk2. at_get clk2 - ts < real_of_int (ttl (dt_cache t1)) \<longrightarrow>
            text_to_sign md5 translate clk2 text True g rh t1 = (Inr r, count_hit t1)))) \<and>
   (generate_key md5 text direction_text_to_sign = Inr k \<and>
    map_of (cache (dt_cache t)) k = Some (r0, ts0) \<and>
    real_of_int (ttl (dt_cache t)) \<le> at_get clk - ts0 \<and> 1 \<le> cache_size (dt_cache t) \<longrightarrow>
      text_to_sign md5 translate clk text True g rh t =
        text_to_sign md5 translate clk text True g rh (purged k t) \<and>
      map_of (cache (dt_cache (purged k t))) k = None \<and>
      (\<forall>e. translate text g rh = Inl e \<longrightarrow>
         text_to_sign md5 translate clk text True g rh t = (Inl e, count_miss (purged k t))) \<and>
      (\<forall>sq. translate text g rh = Inr sq \<longrightarrow>
         (\<exists>t'. text_to_sign md5 translate clk text True g rh t =
                 (Inr (new_result clk text sq), t') \<and>
               map_of (cache (dt_cache t')) k = Some (new_result clk text sq, at_set clk) \<and>
               cache_misses (dt_stats t') = cache_misses (dt_stats t) + 1 \<and>
               cache_hits (dt_stats t') = cache_hits (dt_stats t)))) \<and>
   (generate_key md5 text d = Inr k \<and> cache_ok c \<and> int (length (cache c)) = cache_size c \<and>
    1 \<le> cache_size c \<longrightarrow>
      (\<exists>old v ts. (old, v, ts) \<in> set (cache c) \<and> (\<forall>p\<in>set (cache c). ts \<le> snd (snd p)) \<and>
         cache_set md5 now text d res c =
           Inr (c\<lparr>cache := AList.update k (res, now) (AList.delete old (cache c))\<rparr>) \<and>
         set (AList.delete old (cache c)) = set (cache c) - {(old, v, ts)} \<and>
         length (AList.delete old (cache c)) = length (cache c) - 1)) \<and>
   (cache_ok c \<longrightarrow> (\<forall>c'. cache_set md5 now text d res c = Inr c' \<longrightarrow> cache_ok c')) \<and>
   (cache_ok (dt_cache t) \<longrightarrow>
      cache_ok (dt_cache (snd (text_to_sign md5 translate clk text use_cache g rh t))))"
proof (intro conjI impI allI)
  assume a: "text_to_sign md5 translate clk1 text True g rh t = (Inr r, t1)"
  from text_to_sign_returns_entry [OF a] obtain key ts where
    k: "generate_key md5 text direction_text_to_sign = Inr key" and
    e: "map_of (cache (dt_cache t1)) key = Some (r, ts)" by blast
  have "text_to_sign md5 translate clk2 text True g rh t1 = (Inr r, count_hit t1)"
    if "at_get clk2 - ts < real_of_int (ttl (dt_cache t1))" for clk2
    using k e that by (rule text_to_sign_hit)
  with k e show "\<exists>key ts. generate_key md5 text direction_text_to_sign = Inr key \<and>
         map_of (cache (dt_cache t1)) key = Some (r, ts) \<and>
         (\<forall>clk2. at_get clk2 - ts < real_of_int (ttl (dt_cache t1)) \<longrightarrow>
            text_to_sign md5 translate clk2 text True g rh t1 = (Inr r, count_hit t1))"
    by blast
next
  assume a: "generate_key md5 text direction_text_to_sign = Inr k \<and>
    map_of (cache (dt_cache t)) k = Some (r0, ts0) \<and>
    real_of_int (ttl (dt_cache t)) \<le> at_get clk - ts0 \<and> 1 \<le> cache_size (dt_cache t)"
  then have k: "generate_key md5 text direction_text_to_sign = Inr k"
    and e: "map_of (cache (dt_cache t)) k = Some (r0, ts0)"
    and old: "\<not> at_get clk - ts0 < real_of_int (ttl (dt_cache t))"
    and sz: "1 \<le> cache_size (dt_cache (purged k t))"
    by (simp_all add: purged_def)
  show eq: "text_to_sign md5 translate clk text True g rh t =
        text_to_sign md5 translate clk text True g rh (purged k t)"
    using k e old by (rule text_to_sign_expired)
  show none: "map_of (cache (dt_cache (purged k t))) k = None"
    by (simp add: purged_def map_of_delete_same)
  show "text_to_sign md5 translate clk text True g rh t = (Inl e, count_miss (purged k t))"
    if "translate text g rh = Inl e" for e
    unfolding eq using k none that by (rule text_to_sign_miss_raises)
  show "\<exists>t'. text_to_sign md5 translate clk text True g rh t =
                 (Inr (new_result clk text sq), t') \<and>
               map_of (cache (dt_cache t')) k = Some (new_result clk text sq, at_set clk) \<and>
               cache_misses (dt_stats t') = cache_misses (dt_stats t) + 1 \<and>
               cache_hits (dt_stats t') = cache_hits (dt_stats t)"
    if "translate text g rh = Inr sq" for sq
    unfolding eq
    using text_to_sign_miss_returns [where translate = translate and g = g and rh = rh
        and clk = clk, OF k none that sz]
    by (simp add: purged_def)
next
  assume a: "generate_key md5 text d = Inr k \<and> cache_ok c \<and>
    int (length (cache c)) = cache_size c \<and> 1 \<le> cache_size c"
  then have "cache c \<noteq> []" by auto
  with a show "\<exists>old v ts. (old, v, ts) \<in> set (cache c) \<and> (\<forall>p\<in>set (cache c). ts \<le> snd (snd p)) \<and>
         cache_set md5 now text d res c =
           Inr (c\<lparr>cache := AList.update k (res, now) (AList.delete old (cache c))\<rparr>) \<and>
         set (AList.delete old (cache c)) = set (cache c) - {(old, v, ts)} \<and>
         length (AList.delete old (cache c)) = length (cache c) - 1"
    by (intro cache_set_evicts) (simp_all add: cache_ok_def)
next
  fix c' assume "cache_ok c" "cache_set md5 now text d res c = Inr c'"
  then show "cache_ok c'" by (rule cache_set_ok)
next
  assume "cache_ok (dt_cache t)"
  then show "cache_ok (dt_cache (snd (text_to_sign md5 translate clk text use_cache g rh t)))"
    by (rule text_to_sign_ok)
qed


lemma first_call_example:
  "text_to_sign (\<lambda>s. s) two_actions (call_at 0) [104, 105] True True None fresh_translator =
     (Inr (new_result (call_at 0) [104, 105] hi_sequence), after_first_call)"
  by (simp add: text_to_sign_def cache_get_def cache_set_def generate_key_def
      two_actions_def fresh_translator_def after_first_call_def hi_sequence_def hi_key_def
      direction_text_to_sign_def count_miss_def count_translation_def call_at_def Let_def)


theorem translation_cache_behaviour_witness:
  "text_to_sign (\<lambda>s. s) two_actions (call_at 0) [104, 105] True True None fresh_translator =
     (Inr (new_result (call_at 0) [104, 105] hi_sequence), after_first_call) \<and>
   at_get (call_at 100) - 1 < real_of_int (ttl (dt_cache after_first_call)) \<and>
   text_to_sign (\<lambda>s. s) two_actions (call_at 100) [104, 105] True True None after_first_call =
     (Inr (new_result (call_at 0) [104, 105] hi_sequence), count_hit after_first_call) \<and>
   generate_key (\<lambda>s. s) [104, 105] direction_text_to_sign = Inr hi_key \<and>
   map_of (cache (dt_cache after_first_call)) hi_key =
     Some (new_result (call_at 0) [104, 105] hi_sequence, 1) \<and>
   real_of_int (ttl (dt_cache after_first_call)) \<le> at_get (call_at 5000) - 1 \<and>
   1 \<le> cache_size (dt_cache after_first_call) \<and>
   (\<exists>t'. text_to_sign (\<lambda>s. s) two_actions (call_at 5000) [104, 105] True True None
            after_first_call = (Inr (new_result (call_at 5000) [104, 105] hi_sequence), t') \<and>
         map_of (cache (dt_cache t')) hi_key =
           Some (new_result (call_at 5000) [104, 105] hi_sequence, 5001) \<and>
         cache_misses (dt_stats t') = 2 \<and> cache_hits (dt_stats t') = 0) \<and>
   cache_ok full_cache \<and> int (length (cache full_cache)) = cache_size full_cache \<and>
   cache_set (\<lambda>s. s) 9 [104, 105] direction_text_to_sign 30 full_cache =
     Inr (full_cache\<lparr>cache := [([97], 10, 5), (hi_key, 30, 9)]\<rparr>) \<and>
   cache_ok (full_cache\<lparr>cache := [([97], 10, 5), (hi_key, 30, 9)]\<rparr>) \<and>
   cache_ok (dt_cache fresh_translator) \<and>
   cache_ok (dt_cache (snd (text_to_sign (\<lambda>s. s) two_actions (call_at 0) [104, 105] True True
      None fresh_translator)))"
proof -
  note i1 = translation_cache_behaviour [where ?md5.0 = "\<lambda>s. s" and translate = two_actions
      and ?clk1.0 = "call_at 0" and ?text = "[104, 105]" and g = True and rh = None
      and t = fresh_translator and r = "new_result (call_at 0) [104, 105] hi_sequence"
      and ?t1.0 = after_first_call, THEN conjunct1, rule_format]
  note i2 = translation_cache_behaviour [where ?md5.0 = "\<lambda>s. s" and translate = two_actions
      and clk = "call_at 5000" and ?text = "[104, 105]" and g = True and rh = None
      and t = after_first_call and k = hi_key
      and ?r0.0 = "new_result (call_at 0) [104, 105] hi_sequence" and ?ts0.0 = 1,
      THEN conjunct2, THEN conjunct1, THEN mp, THEN conjunct2, THEN conjunct2, THEN conjunct2,
      rule_format]
  note i3 = translation_cache_behaviour [where ?md5.0 = "\<lambda>s. s" and ?text = "[104, 105]"
      and d = direction_text_to_sign and k = hi_key and c = full_cache and now = 9 and res = 30
      and t = fresh_translator and translate = two_actions and clk = "call_at 0"
      and use_cache = True and g = True and rh = None,
      THEN conjunct2, THEN conjunct2, THEN conjunct2]
  have key: "generate_key (\<lambda>s. s) [104, 105] direction_text_to_sign = Inr hi_key"
    by (simp add: generate_key_def direction_text_to_sign_def hi_key_def)
  have entry: "map_of (cache (dt_cache after_first_call)) hi_key =
     Some (new_result (call_at 0) [104, 105] hi_sequence, 1)"
    by (simp add: after_first_call_def)
  have fresh: "at_get (call_at 100) - 1 < real_of_int (ttl (dt_cache after_first_call))"
    by (simp add: call_at_def after_first_call_def)
  have stale: "real_of_int (ttl (dt_cache after_first_call)) \<le> at_get (call_at 5000) - 1"
    by (simp add: call_at_def after_first_call_def)
  have sz: "1 \<le> cache_size (dt_cache after_first_call)"
    by (simp add: after_first_call_def)
  \<comment> \<open>the second call within the TTL\<close>
  from i1 [OF first_call_example] obtain key' ts where
    k': "generate_key (\<lambda>s. s) [104, 105] direction_text_to_sign = Inr key'" and
    e': "map_of (cache (dt_cache after_first_call)) key' =
           Some (new_result (call_at 0) [104, 105] hi_sequence, ts)" and
    hit: "\<And>clk2. at_get clk2 - ts < real_of_int (ttl (dt_cache after_first_call)) \<Longrightarrow>
            text_to_sign (\<lambda>s. s) two_actions clk2 [104, 105] True True None after_first_call =
            (Inr (new_result (call_at 0) [104, 105] hi_sequence), count_hit after_first_call)"
    by blast
  from k' key have "key' = hi_key" by simp
  with e' entry have "ts = 1" by simp
  with hit [of "call_at 100"] fresh have second:
    "text_to_sign (\<lambda>s. s) two_actions (call_at 100) [104, 105] True True None after_first_call =
     (Inr (new_result (call_at 0) [104, 105] hi_sequence), count_hit after_first_call)"
    by simp
  \<comment> \<open>a call after the TTL\<close>
  have tr: "two_actions [104, 105] True None = Inr hi_sequence"
    by (simp add: two_actions_def hi_sequence_def)
  from key entry stale sz have "generate_key (\<lambda>s. s) [104, 105] direction_text_to_sign = Inr hi_key \<and>
      map_of (cache (dt_cache after_first_call)) hi_key =
        Some (new_result (call_at 0) [104, 105] hi_sequence, 1) \<and>
      real_of_int (ttl (dt_cache after_first_call)) \<le> at_get (call_at 5000) - 1 \<and>
      1 \<le> cache_size (dt_cache after_first_call)" by simp
  from i2 [OF this tr] have
    "\<exists>t'. text_to_sign (\<lambda>s. s) two_actions (call_at 5000) [104, 105] True True None
            after_first_call = (Inr (new_result (call_at 5000) [104, 105] hi_sequence), t') \<and>
         map_of (cache (dt_cache t')) hi_key =
           Some (new_result (call_at 5000) [104, 105] hi_sequence, at_set (call_at 5000)) \<and>
         cache_misses (dt_stats t') = cache_misses (dt_stats after_first_call) + 1 \<and>
         cache_hits (dt_stats t') = cache_hits (dt_stats after_first_call)" .
  then have third: "\<exists>t'. text_to_sign (\<lambda>s. s) two_actions (call_at 5000) [104, 105] True True None
            after_first_call = (Inr (new_result (call_at 5000) [104, 105] hi_sequence), t') \<and>
         map_of (cache (dt_cache t')) hi_key =
           Some (new_result (call_at 5000) [104, 105] hi_sequence, 5001) \<and>
         cache_misses (dt_stats t') = 2 \<and> cache_hits (dt_stats t') = 0"
    by (simp add: call_at_def after_first_call_def)
  \<comment> \<open>an insertion at capacity\<close>
  have ok: "cache_ok full_cache" and len: "int (length (cache full_cache)) = cache_size full_cache"
    and one: "1 \<le> cache_size full_cache"
    by (simp_all add: cache_ok_def full_cache_def)
  have set: "cache_set (\<lambda>s. s) 9 [104, 105] direction_text_to_sign 30 full_cache =
     Inr (full_cache\<lparr>cache := [([97], 10, 5), (hi_key, 30, 9)]\<rparr>)"
    by (simp add: cache_set_def key oldest_key_def full_cache_def hi_key_def)
  from i3 [THEN conjunct1, rule_format, OF ok set]
  have ok': "cache_ok (full_cache\<lparr>cache := [([97], 10, 5), (hi_key, 30, 9)]\<rparr>)" .
  have ok0: "cache_ok (dt_cache fresh_translator)"
    by (simp add: cache_ok_def fresh_translator_def)
  from i3 [THEN conjunct2, rule_format, OF ok0] have ok1: "cache_ok (dt_cache (snd (text_to_sign (\<lambda>s. s) two_actions (call_at 0)
      [104, 105] True True None fresh_translator)))" .
  from first_call_example fresh second key entry stale sz third ok len set ok' ok0 ok1
  show ?thesis by (intro conjI)
qed



text \<open>
  C3 as stated fails when caching is switched off by the argument \<open>use_cache = False\<close>:
  two calls with identical arguments leave \<open>cache_hits\<close> at 0, and their results differ in
  the measured duration.
\<close>

theorem text_to_sign_no_cache_counterexample:
  "cache_hits (dt_stats (snd (text_to_sign (\<lambda>s. s) two_actions \<lparr>at_get = 10, at_start = 10,
       at_end = 13, at_set = 13\<rparr> [104, 105] False True None
     (snd (text_to_sign (\<lambda>s. s) two_actions (call_at 0) [104, 105] False True None
        fresh_translator))))) = 0 \<and>
   fst (text_to_sign (\<lambda>s. s) two_actions (call_at 0) [104, 105] False True None
        fresh_translator) = Inr (new_result (call_at 0) [104, 105] hi_sequence) \<and>
   fst (text_to_sign (\<lambda>s. s) two_actions \<lparr>at_get = 10, at_start = 10,
       at_end = 13, at_set = 13\<rparr> [104, 105] False True None
     (snd (text_to_sign (\<lambda>s. s) two_actions (call_at 0) [104, 105] False True None
        fresh_translator))) =
     Inr (new_result \<lparr>at_get = 10, at_start = 10, at_end = 13, at_set = 13\<rparr> [104, 105]
            hi_sequence) \<and>
   tr_duration (new_result (call_at 0) [104, 105] hi_sequence) = 1 \<and>
   tr_duration (new_result \<lparr>at_get = 10, at_start = 10, at_end = 13, at_set = 13\<rparr> [104, 105]
            hi_sequence) = 3"
  by (simp add: text_to_sign_def two_actions_def fresh_translator_def hi_sequence_def
      count_translation_def call_at_def Let_def new_result_def)

subsection \<open>Hand adjacency\<close>

lemma adj_matrix_21:
  "adj_matrix 21 = Inr (map (\<lambda>i. map (\<lambda>j. if i = j \<or> linked i j then 1 else 0) [0..<21]) [0..<21])"
  by code_simp


text \<open>The parts of C4 that hold: the adjacency and the three kernels are symmetric, the
  self kernel is the identity, the near kernel holds exactly the linked pairs, and at
  every off-diagonal linked pair the three kernels sum to 1.\<close>

lemma adjacency_symmetric:
  "map_sum id (transpose_m 21) (adj_matrix 21) = adj_matrix 21 \<and>
   transpose_m 21 (eye 21) = eye 21 \<and>
   transpose_m 21 (neighbour_matrix 21) = neighbour_matrix 21 \<and>
   transpose_m 21 (zeros 21) = zeros 21"
  by code_simp

lemma kernel_entries:
  assumes "i < n" "j < n"
  shows "eye n ! i ! j = (if i = j then 1 else 0)"
    and "neighbour_matrix n ! i ! j = (if linked i j then 1 else 0)"
    and "zeros n ! i ! j = 0"
  using assms by (simp_all add: eye_def neighbour_matrix_def zeros_def)

lemma kernels_sum_at_edges:
  assumes "i < 21" "j < 21" "i \<noteq> j" "linked i j"
  shows "eye 21 ! i ! j + neighbour_matrix 21 ! i ! j + zeros 21 ! i ! j = 1"
  using assms by (simp add: kernel_entries)

text \<open>
  C4. The claim asks that the far-centrifugal kernel hold exactly the pairs at graph
  distance 2 or more. The function computes it as \<open>np.where(adj_matrix >= 2, 1, 0)\<close> on a
  matrix whose entries are 0 or 1, so the kernel is the zero matrix: joints 1 and 5 are
  both linked to the wrist 0 and not to each other (distance 2), and their entry is 0.
\<close>

theorem far_centrifugal_kernel_is_zero:
  "build_adjacency_matrix 21 = Inr (eye 21, neighbour_matrix 21, zeros 21) \<and>
   linked 1 0 \<and> linked 0 5 \<and> \<not> linked 1 5 \<and>
   zeros 21 ! 1 ! 5 = 0 \<and> zeros 21 ! 5 ! 1 = 0"
  by code_simp

subsection \<open>Smoothing\<close>

lemma stored_predictions_simps [simp]:
  "stored_predictions [] = []"
  "stored_predictions ((None, c) # h) = stored_predictions h"
  "stored_predictions ((Some p, c) # h) = p # stored_predictions h"
  by (simp_all add: stored_predictions_def List.map_filter_simps)

lemma dict_get_update:
  "dict_get (AList.update k v d) q = (if q = k then v else dict_get d q)"
  by (simp add: dict_get_def update_conv')

lemma count_predictions_get:
  "dict_get (count_predictions h acc) q = dict_get acc q + count_list (stored_predictions h) q"
proof (induction h acc rule: count_predictions.induct)
  case (1 counts)
  then show ?case by simp
next
  case (2 pred conf rest counts)
  then show ?case by (cases pred) (auto simp: dict_get_update)
qed

lemma count_predictions_keys:
  "fst ` set (count_predictions h acc) = fst ` set acc \<union> set (stored_predictions h)"
proof (induction h acc rule: count_predictions.induct)
  case (1 counts)
  then show ?case by simp
next
  case (2 pred conf rest counts)
  show ?case
  proof (cases pred)
    case None
    with 2 show ?thesis by simp
  next
    case (Some p)
    with 2 have "fst ` set (count_predictions rest (AList.update p (dict_get counts p + 1) counts)) =
        fst ` set (AList.update p (dict_get counts p + 1) counts) \<union> set (stored_predictions rest)"
      by simp
    then show ?thesis unfolding AList.dom_update using Some by auto
  qed
qed

lemma count_predictions_distinct:
  "distinct (map fst acc) \<Longrightarrow> distinct (map fst (count_predictions h acc))"
proof (induction h acc rule: count_predictions.induct)
  case (1 counts)
  then show ?case by simp
next
  case (2 pred conf rest counts)
  then show ?case by (cases pred) (simp_all add: distinct_update)
qed

lemma max_loop_max:
  "max_loop best ps \<in> set (best # ps) \<and> (\<forall>p\<in>set (best # ps). snd p \<le> snd (max_loop best ps))"
proof (induction ps arbitrary: best)
  case Nil
  then show ?case by simp
next
  case (Cons a ps)
  let ?b = "if snd a > snd best then a else best"
  from Cons.IH [of ?b] have m: "max_loop ?b ps \<in> set (?b # ps)"
    and g: "\<forall>p\<in>set (?b # ps). snd p \<le> snd (max_loop ?b ps)" by blast+
  from g have "snd ?b \<le> snd (max_loop ?b ps)" by simp
  moreover have "snd a \<le> snd ?b" "snd best \<le> snd ?b" by auto
  ultimately have "snd a \<le> snd (max_loop ?b ps)" "snd best \<le> snd (max_loop ?b ps)"
    by linarith+
  with g m show ?case by (auto split: if_splits)
qed


lemma dict_get_entry: "distinct (map fst d) \<Longrightarrow> (k, n) \<in> set d \<Longrightarrow> dict_get d k = n"
  by (simp add: dict_get_def)

lemma most_frequent:
  assumes "count_predictions h [] = c # cs"
  shows "fst (max_loop c cs) \<in> set (stored_predictions h) \<and>
         snd (max_loop c cs) = count_list (stored_predictions h) (fst (max_loop c cs)) \<and>
         (\<forall>q\<in>set (stored_predictions h).
            count_list (stored_predictions h) q \<le> count_list (stored_predictions h) (fst (max_loop c cs)))"
proof -
  let ?d = "count_predictions h []"
  let ?st = "stored_predictions h"
  let ?b = "max_loop c cs"
  have dist: "distinct (map fst ?d)" by (rule count_predictions_distinct) simp
  have keys: "fst ` set ?d = set ?st" using count_predictions_keys [of h "[]"] by simp
  have get: "dict_get ?d q = count_list ?st q" for q
    using count_predictions_get [of h "[]" q] by (simp add: dict_get_def)
  from max_loop_max [of c cs] assms have bin: "?b \<in> set ?d"
    and bmax: "\<forall>p\<in>set ?d. snd p \<le> snd ?b" by simp_all
  from bin have "(fst ?b, snd ?b) \<in> set ?d" by simp
  from dict_get_entry [OF dist this] get have sb: "snd ?b = count_list ?st (fst ?b)" by simp
  from bin have "fst ?b \<in> fst ` set ?d" by (rule imageI)
  with keys have fb: "fst ?b \<in> set ?st" by simp
  have "count_list ?st q \<le> count_list ?st (fst ?b)" if "q \<in> set ?st" for q
  proof -
    from that keys have "q \<in> fst ` set ?d" by simp
    then obtain pr where pr: "pr \<in> set ?d" "q = fst pr" by (rule imageE)
    then have "(q, snd pr) \<in> set ?d" by simp
    from dict_get_entry [OF dist this] get have "snd pr = count_list ?st q" by simp
    moreover from bmax pr(1) have "snd pr \<le> snd ?b" by (rule bspec)
    ultimately show ?thesis using sb by simp
  qed
  with fb sb show ?thesis by blast
qed

lemma apply_smoothing_unfold:
  "apply_smoothing p c h =
     (if length (deque_append 5 h (p, c)) < 5 then (p, deque_append 5 h (p, c))
      else
        (case count_predictions (deque_append 5 h (p, c)) [] of
           [] \<Rightarrow> (p, deque_append 5 h (p, c))
         | x # xs \<Rightarrow>
             (if 2 \<le> snd (max_loop x xs)
              then (Some (fst (max_loop x xs)), deque_append 5 h (p, c))
              else (p, deque_append 5 h (p, c)))))"
  by (simp add: apply_smoothing_def DEFAULT_SMOOTHING_WINDOW_def Let_def split: list.splits)

lemma no_counts:
  assumes "count_predictions h [] = []"
  shows "stored_predictions h = []"
  using count_predictions_keys [of h "[]"] assms by simp

text \<open>
  C5. The smoother keeps the last 5 (prediction, confidence) pairs. While fewer than 5
  are stored it returns the raw prediction. Once 5 are stored, it takes a most frequent
  prediction of the history (\<open>None\<close> entries are not counted) and returns it when its count
  is at least half the window size (\<open>5 // 2 = 2\<close> in the source); otherwise, and when the
  history holds no prediction at all, it returns the raw prediction. In particular a
  history of 5 equal labels gives that label.
\<close>

theorem apply_smoothing_spec:
  "snd (apply_smoothing p c h) = drop (length h + 1 - 5) (h @ [(p, c)]) \<and>
   (length (snd (apply_smoothing p c h)) < 5 \<longrightarrow> fst (apply_smoothing p c h) = p) \<and>
   (5 \<le> length (snd (apply_smoothing p c h)) \<longrightarrow>
      (stored_predictions (snd (apply_smoothing p c h)) = [] \<longrightarrow> fst (apply_smoothing p c h) = p) \<and>
      (stored_predictions (snd (apply_smoothing p c h)) \<noteq> [] \<longrightarrow>
         (\<exists>best\<in>set (stored_predictions (snd (apply_smoothing p c h))).
            (\<forall>q\<in>set (stored_predictions (snd (apply_smoothing p c h))).
               count_list (stored_predictions (snd (apply_smoothing p c h))) q \<le>
               count_list (stored_predictions (snd (apply_smoothing p c h))) best) \<and>
            (5 div 2 \<le> count_list (stored_predictions (snd (apply_smoothing p c h))) best \<longrightarrow>
               fst (apply_smoothing p c h) = Some best) \<and>
            (count_list (stored_predictions (snd (apply_smoothing p c h))) best < 5 div 2 \<longrightarrow>
               fst (apply_smoothing p c h) = p))) \<and>
      (\<forall>l. (\<forall>x\<in>set (snd (apply_smoothing p c h)). fst x = Some l) \<longrightarrow>
         fst (apply_smoothing p c h) = Some l))"
proof -
  define h' where "h' = deque_append 5 h (p, c)"
  have snd_eq: "snd (apply_smoothing p c h) = h'"
    by (simp add: apply_smoothing_unfold h'_def split: list.splits)
  have h'_eq: "h' = drop (length h + 1 - 5) (h @ [(p, c)])"
    by (simp add: h'_def deque_append_def)
  have short: "fst (apply_smoothing p c h) = p" if "length h' < 5"
    using that unfolding apply_smoothing_unfold h'_def [symmetric] by simp
  let ?st = "stored_predictions h'"
  have empty: "fst (apply_smoothing p c h) = p" if "5 \<le> length h'" "?st = []"
  proof (cases "count_predictions h' []")
    case Nil
    with that show ?thesis
      unfolding apply_smoothing_unfold h'_def [symmetric] by simp
  next
    case (Cons x xs)
    from most_frequent [OF Cons] that(2) show ?thesis by simp
  qed
  have full: "\<exists>best\<in>set ?st. (\<forall>q\<in>set ?st. count_list ?st q \<le> count_list ?st best) \<and>
            (5 div 2 \<le> count_list ?st best \<longrightarrow> fst (apply_smoothing p c h) = Some best) \<and>
            (count_list ?st best < 5 div 2 \<longrightarrow> fst (apply_smoothing p c h) = p)"
    if len: "5 \<le> length h'" and ne: "?st \<noteq> []"
  proof (cases "count_predictions h' []")
    case Nil
    from no_counts [OF Nil] ne show ?thesis by simp
  next
    case (Cons x xs)
    let ?b = "max_loop x xs"
    from most_frequent [OF Cons] have b: "fst ?b \<in> set ?st"
      "snd ?b = count_list ?st (fst ?b)"
      "\<forall>q\<in>set ?st. count_list ?st q \<le> count_list ?st (fst ?b)" by blast+
    have r: "fst (apply_smoothing p c h) = (if 5 div 2 \<le> snd ?b then Some (fst ?b) else p)"
      using len Cons unfolding apply_smoothing_unfold h'_def [symmetric] by simp
    show ?thesis
      by (rule bexI [of _ "fst ?b"]) (use b r in auto)
  qed
  have same: "fst (apply_smoothing p c h) = Some l"
    if len: "5 \<le> length h'" and all: "\<forall>x\<in>set h'. fst x = Some l" for l
  proof -
    have st: "?st = replicate (length h') l"
      using all by (induction h') (auto simp: stored_predictions_def List.map_filter_simps)
    with len have ne: "?st \<noteq> []" by auto
    from full [OF len ne] obtain best where best: "best \<in> set ?st"
      "5 div 2 \<le> count_list ?st best \<longrightarrow> fst (apply_smoothing p c h) = Some best" by blast
    from best(1) st have bl: "best = l" by simp
    have "count_list (replicate n l) l = n" for n by (induction n) auto
    with st have "count_list ?st l = length h'" by simp
    with len best(2) bl show ?thesis by simp
  qed
  show ?thesis
    unfolding snd_eq
    apply (intro conjI impI allI)
    subgoal by (rule h'_eq)
    subgoal by (rule short)
    subgoal by (rule empty)
    subgoal by (rule full)
    subgoal by (rule same)
    done
qed


theorem apply_smoothing_spec_witness:
  "length (snd (apply_smoothing (Some [97]) 0.9 [(Some [98], 0.8)])) < 5 \<and>
   apply_smoothing (Some [97]) 0.9 [(Some [98], 0.8)] =
     (Some [97], [(Some [98], 0.8), (Some [97], 0.9)]) \<and>
   5 \<le> length (snd (apply_smoothing (Some [97]) 0.9
          [(Some [97], 0.7), (Some [97], 0.7), (Some [97], 0.7), (Some [97], 0.7),
           (Some [97], 0.7)])) \<and>
   list_all (\<lambda>x. fst x = Some [97]) (snd (apply_smoothing (Some [97]) 0.9
          [(Some [97], 0.7), (Some [97], 0.7), (Some [97], 0.7), (Some [97], 0.7),
           (Some [97], 0.7)])) \<and>
   fst (apply_smoothing (Some [97]) 0.9
          [(Some [97], 0.7), (Some [97], 0.7), (Some [97], 0.7), (Some [97], 0.7),
           (Some [97], 0.7)]) = Some [97] \<and>
   apply_smoothing (Some [101]) 0.9
          [(Some [97], 0.7), (Some [98], 0.7), (Some [98], 0.7), (Some [99], 0.7),
           (Some [100], 0.7)] =
     (Some [98], [(Some [98], 0.7), (Some [98], 0.7), (Some [99], 0.7), (Some [100], 0.7),
                  (Some [101], 0.9)]) \<and>
   apply_smoothing (Some [101]) 0.9
          [(Some [97], 0.7), (Some [98], 0.7), (Some [99], 0.7), (None, 0.7),
           (Some [100], 0.7)] =
     (Some [101], [(Some [98], 0.7), (Some [99], 0.7), (None, 0.7), (Some [100], 0.7),
                  (Some [101], 0.9)])"
proof -
  let ?h = "[(Some [97], 0.7), (Some [97], 0.7), (Some [97], 0.7), (Some [97], 0.7),
           (Some [97::nat], 0.7::real)]"
  have s1: "snd (apply_smoothing (Some [97]) 0.9 [(Some [98], 0.8)]) =
      [(Some [98], 0.8), (Some [97], 0.9)]"
    using apply_smoothing_spec [of "Some [97]" "0.9" "[(Some [98], 0.8)]", THEN conjunct1]
    by simp
  then have l1: "length (snd (apply_smoothing (Some [97]) 0.9 [(Some [98], 0.8)])) < 5" by simp
  from apply_smoothing_spec [of "Some [97]" "0.9" "[(Some [98], 0.8)]", THEN conjunct2,
      THEN conjunct1, THEN mp, OF l1]
  have f1: "fst (apply_smoothing (Some [97]) 0.9 [(Some [98], 0.8)]) = Some [97]" .
  from s1 f1 have a1: "apply_smoothing (Some [97]) 0.9 [(Some [98], 0.8)] =
     (Some [97], [(Some [98], 0.8), (Some [97], 0.9)])" by (simp add: prod_eq_iff)
  have s2: "snd (apply_smoothing (Some [97]) 0.9 ?h) =
      [(Some [97], 0.7), (Some [97], 0.7), (Some [97], 0.7), (Some [97], 0.7), (Some [97], 0.9)]"
    using apply_smoothing_spec [of "Some [97]" "0.9" ?h, THEN conjunct1] by simp
  then have l2: "5 \<le> length (snd (apply_smoothing (Some [97]) 0.9 ?h))"
    and e2: "\<forall>x\<in>set (snd (apply_smoothing (Some [97]) 0.9 ?h)). fst x = Some [97]"
    by simp_all
  from apply_smoothing_spec [of "Some [97]" "0.9" ?h, THEN conjunct2, THEN conjunct2,
      THEN mp, OF l2, THEN conjunct2, THEN conjunct2, THEN spec, THEN mp, OF e2]
  have f2: "fst (apply_smoothing (Some [97]) 0.9 ?h) = Some [97]" .
  have a3: "apply_smoothing (Some [101]) 0.9
          [(Some [97], 0.7), (Some [98], 0.7), (Some [98], 0.7), (Some [99], 0.7),
           (Some [100], 0.7)] =
     (Some [98], [(Some [98], 0.7), (Some [98], 0.7), (Some [99], 0.7), (Some [100], 0.7),
                  (Some [101], 0.9)])"
    by (simp add: apply_smoothing_unfold deque_append_def dict_get_def)
  have a4: "apply_smoothing (Some [101]) 0.9
          [(Some [97], 0.7), (Some [98], 0.7), (Some [99], 0.7), (None, 0.7),
           (Some [100], 0.7)] =
     (Some [101], [(Some [98], 0.7), (Some [99], 0.7), (None, 0.7), (Some [100], 0.7),
                  (Some [101], 0.9)])"
    by (simp add: apply_smoothing_unfold deque_append_def dict_get_def)
  from e2 have e2': "list_all (\<lambda>x. fst x = Some [97]) (snd (apply_smoothing (Some [97]) 0.9 ?h))"
    by (simp only: list_all_iff)
  from l1 a1 l2 e2' f2 a3 a4 show ?thesis by (intro conjI)
qed

subsection \<open>The example logger\<close>

lemma logger_with_simps:
  "log_info (logger_with i e) m = i"
  "log_error (logger_with i e) m = e"
  by (simp_all add: logger_with_def)

subsection \<open>Audio normalization\<close>









subsection \<open>BLEU\<close>

text \<open>
  C7. The claim asks that the call complete and return a value in both cases. Whenever
  the hypothesis has fewer words than the reference (and at least one word, with
  \<open>n \<ge> 1\<close>), the function reaches \<open>np.exp\<close> and raises \<open>NameError\<close> instead of returning the
  penalized score.
\<close>

theorem evaluate_bleu_shorter_raises:
  assumes "py_split hypothesis \<noteq> []"
    and "length (py_split hypothesis) < length (py_split reference)"
    and "1 \<le> n"
  shows "evaluate_bleu reference hypothesis n = Inl name_error_np"
proof -
  from assms(1) have h: "hypothesis \<noteq> []" by (auto simp: py_split_def)
  from assms(2) have r: "reference \<noteq> []" by (auto simp: py_split_def)
  from assms(1) have "1 \<le> int (length (py_split hypothesis))"
    by (cases "py_split hypothesis") simp_all
  with assms(3) have "[1..min n (int (length (py_split hypothesis)))] \<noteq> []" by simp
  with h r assms(1,2) show ?thesis by (simp add: evaluate_bleu_def Let_def)
qed

theorem evaluate_bleu_shorter_raises_witness:
  "py_split [97] \<noteq> [] \<and> length (py_split [97]) < length (py_split [97, 32, 98]) \<and>
   evaluate_bleu [97, 32, 98] [97] 4 = Inl name_error_np"
proof -
  have a: "py_split [97] \<noteq> []" and b: "length (py_split [97]) < length (py_split [97, 32, 98])"
    by (simp_all add: py_split_def py_isspace_def)
  from evaluate_bleu_shorter_raises [OF a b, of 4] a b show ?thesis by simp
qed

text \<open>When the hypothesis is not shorter, the call returns the geometric mean of the
  precisions of the 1- to \<open>min n (len hyp_words)\<close>-grams, without a penalty.\<close>

lemma evaluate_bleu_not_shorter:
  assumes "py_split hypothesis \<noteq> []"
    and "length (py_split reference) \<le> length (py_split hypothesis)"
    and "1 \<le> n" and "reference \<noteq> []"
  shows "evaluate_bleu reference hypothesis n =
         Inr (prod_list (map (\<lambda>i. precision (py_split reference) (py_split hypothesis) (nat i))
                         [1..min n (int (length (py_split hypothesis)))])
              powr (1 / real_of_int (min n (int (length (py_split hypothesis))))))"
proof -
  from assms(1) have h: "hypothesis \<noteq> []" by (auto simp: py_split_def)
  from assms(1) have l: "1 \<le> int (length (py_split hypothesis))"
    by (cases "py_split hypothesis") simp_all
  with assms(3) have ne: "[1..min n (int (length (py_split hypothesis)))] \<noteq> []" by simp
  have len: "real (length [1..min n (int (length (py_split hypothesis)))]) =
      real_of_int (min n (int (length (py_split hypothesis))))"
    using l assms(3) by simp
  from h assms ne show ?thesis
    by (simp add: evaluate_bleu_def Let_def len del: length_upto)
qed

subsection \<open>Exception handlers\<close>

text \<open>
  C8. The fallback handler answers every exception with status 500 and the fixed envelope
  \<open>{success: false, error: <generic text>, status_code: 500}\<close>; the response is the same for
  any two exceptions and requests (the type and the message of the exception go to the
  log line only), and it is the response of the application to every exception that is
  neither an \<open>HTTPException\<close> nor a validation error of the request, which has its own
  handler (422, with the list of errors). The catch block of \<open>translate_text\<close> turns a
  caught exception into an \<open>HTTPException\<close> with status 500 whose detail ends with the
  exception's text, and the response built from it carries that text in its \<open>error\<close>
  field. In \<open>translate_text\<close> itself: equal languages give the 400; an exception raised by
  the logging in the \<open>try\<close> block comes out as that 500 with its text (as itself when it
  is an \<open>HTTPException\<close>, and as the exception of the second logging when that raises);
  otherwise the placeholder response is returned.
\<close>

theorem fallback_handler_generic:
  "snd (general_exception_handler req exc) =
     \<lparr>resp_status_code = 500,
      resp_content = \<lparr>err_success = False, err_error = internal_error_text,
                      err_details = None, err_status_code = 500\<rparr>\<rparr> \<and>
   snd (general_exception_handler req exc) = snd (general_exception_handler req' exc') \<and>
   snd (handle_exception rp req (Raised (PyError ty msg))) =
     snd (general_exception_handler req (PyError ty msg)) \<and>
   snd (handle_exception rp req (Raised (PyError ty msg))) =
     snd (handle_exception rp req' (Raised (PyError ty' msg'))) \<and>
   fst (general_exception_handler req (PyError ty msg)) =
     [26410, 22788, 29702, 30340, 24322, 24120, 58, 32] @ ty @ [32, 45, 32] @ msg \<and>
   snd (handle_exception rp req (RequestValidationError errors)) =
     \<lparr>resp_status_code = 422,
      resp_content = \<lparr>err_success = False, err_error = validation_error_text,
                      err_details = Some errors, err_status_code = 422\<rparr>\<rparr> \<and>
   translate_text_except (PyError ty msg) = HTTPException 500 (translate_failed_prefix @ msg) \<and>
   snd (handle_exception rp req (Raised (translate_text_except (PyError ty msg)))) =
     \<lparr>resp_status_code = 500,
      resp_content = \<lparr>err_success = False, err_error = translate_failed_prefix @ msg,
                      err_details = None, err_status_code = 500\<rparr>\<rparr> \<and>
   drop (length translate_failed_prefix)
     (err_error (resp_content
        (snd (handle_exception rp req (Raised (translate_text_except (PyError ty msg))))))) =
     msg \<and>
   (request_source_lang st rq = request_target_lang st rq \<longrightarrow>
      translate_text lg st rq = Inl (HTTPException 400 same_language_detail)) \<and>
   (request_source_lang st rq \<noteq> request_target_lang st rq \<and>
    log_info lg (request_received_message (request_source_lang st rq)
                   (request_target_lang st rq) (treq_text rq)) = Some (PyError ty msg) \<and>
    log_error lg (translate_failed_prefix @ msg) = None \<longrightarrow>
      translate_text lg st rq = Inl (HTTPException 500 (translate_failed_prefix @ msg))) \<and>
   (request_source_lang st rq \<noteq> request_target_lang st rq \<and>
    log_info lg (request_received_message (request_source_lang st rq)
                   (request_target_lang st rq) (treq_text rq)) = Some (PyError ty msg) \<and>
    log_error lg (translate_failed_prefix @ msg) = Some e2 \<longrightarrow>
      translate_text lg st rq = Inl e2) \<and>
   (request_source_lang st rq \<noteq> request_target_lang st rq \<and>
    log_info lg (request_received_message (request_source_lang st rq)
                   (request_target_lang st rq) (treq_text rq)) = Some (HTTPException s d) \<longrightarrow>
      translate_text lg st rq = Inl (HTTPException s d)) \<and>
   (request_source_lang st rq \<noteq> request_target_lang st rq \<and>
    log_info lg (request_received_message (request_source_lang st rq)
                   (request_target_lang st rq) (treq_text rq)) = None \<longrightarrow>
      translate_text lg st rq =
        Inr \<lparr>tres_success = True, tres_original_text = treq_text rq,
             tres_translated_text =
               placeholder_translation (request_source_lang st rq) (request_target_lang st rq)
                 (treq_text rq),
             tres_source_lang = request_source_lang st rq,
             tres_target_lang = request_target_lang st rq,
             tres_confidence = 0.95, tres_message = [32763, 35793, 25104, 21151]\<rparr>)"
proof -
  have h: "snd (general_exception_handler r e) =
     \<lparr>resp_status_code = 500,
      resp_content = \<lparr>err_success = False, err_error = internal_error_text,
                      err_details = None, err_status_code = 500\<rparr>\<rparr>" for r :: 'x and e
    by (simp add: general_exception_handler_def)
  have g1: "snd (general_exception_handler req exc) = snd (general_exception_handler req' exc')"
    by (simp add: general_exception_handler_def)
  have d1: "snd (handle_exception rp r (Raised (PyError a b))) =
      snd (general_exception_handler r (PyError a b))" for r :: 'y and a b
    by (simp add: handle_exception_def)
  have d2: "snd (handle_exception rp req (Raised (PyError ty msg))) =
     snd (handle_exception rp req' (Raised (PyError ty' msg')))"
    by (simp add: handle_exception_def general_exception_handler_def)
  have l: "fst (general_exception_handler req (PyError ty msg)) =
     [26410, 22788, 29702, 30340, 24322, 24120, 58, 32] @ ty @ [32, 45, 32] @ msg"
    by (simp add: general_exception_handler_def exn_type_name_def exn_str_def)
  have v: "snd (handle_exception rp req (RequestValidationError errors)) =
     \<lparr>resp_status_code = 422,
      resp_content = \<lparr>err_success = False, err_error = validation_error_text,
                      err_details = Some errors, err_status_code = 422\<rparr>\<rparr>"
    by (simp add: handle_exception_def validation_exception_handler_def)
  have x: "translate_text_except (PyError ty msg) =
      HTTPException 500 (translate_failed_prefix @ msg)"
    by (simp add: translate_text_except_def exn_str_def)
  have r: "snd (handle_exception rp req (Raised (translate_text_except (PyError ty msg)))) =
     \<lparr>resp_status_code = 500,
      resp_content = \<lparr>err_success = False, err_error = translate_failed_prefix @ msg,
                      err_details = None, err_status_code = 500\<rparr>\<rparr>"
    by (simp add: x handle_exception_def http_exception_handler_def)
  have dr: "drop (length translate_failed_prefix)
     (err_error (resp_content
        (snd (handle_exception rp req (Raised (translate_text_except (PyError ty msg))))))) =
     msg"
    by (simp add: r)
  have a: "translate_text lg st rq = Inl (HTTPException 400 same_language_detail)"
    if "request_source_lang st rq = request_target_lang st rq"
    using that
    by (simp add: translate_text_def translate_text_try_def translate_text_except_def)
  have b: "translate_text lg st rq = Inl (HTTPException 500 (translate_failed_prefix @ msg))"
    if "request_source_lang st rq \<noteq> request_target_lang st rq \<and>
    log_info lg (request_received_message (request_source_lang st rq)
                   (request_target_lang st rq) (treq_text rq)) = Some (PyError ty msg) \<and>
    log_error lg (translate_failed_prefix @ msg) = None"
    using that
    by (simp add: translate_text_def translate_text_try_def Let_def x exn_str_def)
  have c: "translate_text lg st rq = Inl e2"
    if "request_source_lang st rq \<noteq> request_target_lang st rq \<and>
    log_info lg (request_received_message (request_source_lang st rq)
                   (request_target_lang st rq) (treq_text rq)) = Some (PyError ty msg) \<and>
    log_error lg (translate_failed_prefix @ msg) = Some e2"
    using that
    by (simp add: translate_text_def translate_text_try_def Let_def exn_str_def)
  have d: "translate_text lg st rq = Inl (HTTPException s d)"
    if "request_source_lang st rq \<noteq> request_target_lang st rq \<and>
    log_info lg (request_received_message (request_source_lang st rq)
                   (request_target_lang st rq) (treq_text rq)) = Some (HTTPException s d)"
    using that
    by (simp add: translate_text_def translate_text_try_def Let_def translate_text_except_def)
  have e: "translate_text lg st rq =
        Inr \<lparr>tres_success = True, tres_original_text = treq_text rq,
             tres_translated_text =
               placeholder_translation (request_source_lang st rq) (request_target_lang st rq)
                 (treq_text rq),
             tres_source_lang = request_source_lang st rq,
             tres_target_lang = request_target_lang st rq,
             tres_confidence = 0.95, tres_message = [32763, 35793, 25104, 21151]\<rparr>"
    if "request_source_lang st rq \<noteq> request_target_lang st rq \<and>
    log_info lg (request_received_message (request_source_lang st rq)
                   (request_target_lang st rq) (treq_text rq)) = None"
    using that
    by (simp add: translate_text_def translate_text_try_def Let_def)
  show ?thesis
    apply (intro conjI impI)
    subgoal by (rule h)
    subgoal by (rule g1)
    subgoal by (rule d1)
    subgoal by (rule d2)
    subgoal by (rule l)
    subgoal by (rule v)
    subgoal by (rule x)
    subgoal by (rule r)
    subgoal by (rule dr)
    subgoal by (rule a)
    subgoal by (rule b)
    subgoal by (rule c)
    subgoal by (rule d)
    subgoal by (rule e)
    done
qed

theorem fallback_handler_generic_witness:
  "request_source_lang default_settings english_request =
     request_target_lang default_settings english_request \<and>
   translate_text (logger_with None None) default_settings english_request =
     Inl (HTTPException 400 same_language_detail) \<and>
   request_source_lang default_settings hello_request \<noteq>
     request_target_lang default_settings hello_request \<and>
   translate_text (logger_with (Some runtime_error_down) None) default_settings hello_request =
     Inl (HTTPException 500 [32763, 35793, 22833, 36133, 58, 32, 100, 111, 119, 110]) \<and>
   translate_text (logger_with (Some runtime_error_down) (Some (PyError [79] [120])))
       default_settings hello_request =
     Inl (PyError [79] [120]) \<and>
   translate_text (logger_with (Some (HTTPException 418 [116])) None)
       default_settings hello_request =
     Inl (HTTPException 418 [116]) \<and>
   translate_text (logger_with None None) default_settings hello_request =
     Inr \<lparr>tres_success = True, tres_original_text = [20320, 22909],
          tres_translated_text = [91, 69, 78, 93, 32, 20320, 22909],
          tres_source_lang = [122, 104], tres_target_lang = [101, 110],
          tres_confidence = 0.95, tres_message = [32763, 35793, 25104, 21151]\<rparr>"
proof -
  have same: "request_source_lang default_settings english_request =
     request_target_lang default_settings english_request"
    by (simp add: request_source_lang_def request_target_lang_def english_request_def
        default_settings_def py_or_def)
  have src: "request_source_lang default_settings hello_request = [122, 104]"
    and tgt: "request_target_lang default_settings hello_request = [101, 110]"
    and tx: "treq_text hello_request = [20320, 22909]"
    by (simp_all add: request_source_lang_def request_target_lang_def hello_request_def
        default_settings_def py_or_def)
  have differ: "request_source_lang default_settings hello_request \<noteq>
     request_target_lang default_settings hello_request"
    by (simp add: src tgt)
  have i1: "log_info (logger_with (Some runtime_error_down) oc) m =
      Some (PyError [82, 117, 110, 116, 105, 109, 101, 69, 114, 114, 111, 114]
              [100, 111, 119, 110])" for oc m
    by (simp add: logger_with_def runtime_error_down_def)
  have i2: "log_info (logger_with (Some (HTTPException 418 [116])) None) m =
      Some (HTTPException 418 [116])" for m
    by (simp add: logger_with_def)
  have i3: "log_info (logger_with None None) m = None" for m
    by (simp add: logger_with_def)
  have e1: "log_error (logger_with io None) m = None" for io m
    by (simp add: logger_with_def)
  have e2: "log_error (logger_with io (Some (PyError [79] [120]))) m =
      Some (PyError [79] [120])" for io m
    by (simp add: logger_with_def)
  have pre: "translate_failed_prefix @ [100, 111, 119, 110] =
      [32763, 35793, 22833, 36133, 58, 32, 100, 111, 119, 110]"
    by (simp add: translate_failed_prefix_def)
  have ph: "placeholder_translation [122, 104] [101, 110] [20320, 22909] =
      [91, 69, 78, 93, 32, 20320, 22909]"
    by (simp add: placeholder_translation_def)
  note t = fallback_handler_generic [THEN conjunct2, THEN conjunct2, THEN conjunct2,
      THEN conjunct2, THEN conjunct2, THEN conjunct2, THEN conjunct2, THEN conjunct2,
      THEN conjunct2]
  note ta = t [THEN conjunct1, THEN mp]
  note tb = t [THEN conjunct2, THEN conjunct1, THEN mp]
  note tc = fallback_handler_generic [where msg = "[100, 111, 119, 110]"
      and ty = "[82, 117, 110, 116, 105, 109, 101, 69, 114, 114, 111, 114]",
      THEN conjunct2, THEN conjunct2, THEN conjunct2,
      THEN conjunct2, THEN conjunct2, THEN conjunct2, THEN conjunct2, THEN conjunct2,
      THEN conjunct2, THEN conjunct2, THEN conjunct2, THEN conjunct1, THEN mp]
  note td = t [THEN conjunct2, THEN conjunct2, THEN conjunct2, THEN conjunct1, THEN mp]
  note te = t [THEN conjunct2, THEN conjunct2, THEN conjunct2, THEN conjunct2, THEN mp]
  have a: "translate_text (logger_with None None) default_settings english_request =
     Inl (HTTPException 400 same_language_detail)"
    by (rule ta) (rule same)
  have "translate_text (logger_with (Some runtime_error_down) None) default_settings
       hello_request =
     Inl (HTTPException 500 (translate_failed_prefix @ [100, 111, 119, 110]))"
    by (rule tb) (simp only: differ i1 e1 not_False_eq_True simp_thms)
  then have b: "translate_text (logger_with (Some runtime_error_down) None) default_settings
       hello_request =
     Inl (HTTPException 500 [32763, 35793, 22833, 36133, 58, 32, 100, 111, 119, 110])"
    by (simp only: pre)
  have c: "translate_text (logger_with (Some runtime_error_down) (Some (PyError [79] [120])))
       default_settings hello_request = Inl (PyError [79] [120])"
    by (rule tc) (simp only: differ i1 e2 not_False_eq_True simp_thms)
  have d: "translate_text (logger_with (Some (HTTPException 418 [116])) None)
       default_settings hello_request = Inl (HTTPException 418 [116])"
    by (rule td) (simp only: differ i2 not_False_eq_True simp_thms)
  have "translate_text (logger_with None None) default_settings hello_request =
     Inr \<lparr>tres_success = True, tres_original_text = treq_text hello_request,
          tres_translated_text =
            placeholder_translation (request_source_lang default_settings hello_request)
              (request_target_lang default_settings hello_request) (treq_text hello_request),
          tres_source_lang = request_source_lang default_settings hello_request,
          tres_target_lang = request_target_lang default_settings hello_request,
          tres_confidence = 0.95, tres_message = [32763, 35793, 25104, 21151]\<rparr>"
    by (rule te) (simp only: differ i3 not_False_eq_True simp_thms)
  then have e: "translate_text (logger_with None None) default_settings hello_request =
     Inr \<lparr>tres_success = True, tres_original_text = [20320, 22909],
          tres_translated_text = [91, 69, 78, 93, 32, 20320, 22909],
          tres_source_lang = [122, 104], tres_target_lang = [101, 110],
          tres_confidence = 0.95, tres_message = [32763, 35793, 25104, 21151]\<rparr>"
    by (simp only: src tgt tx ph)
  from same a differ b c d e show ?thesis by (intro conjI)
qed

subsection \<open>Word order\<close>

lemma split_acc_words:
  "\<forall>c\<in>set cur. \<not> sep c \<Longrightarrow>
   \<forall>w\<in>set (split_acc sep cur s). w \<noteq> [] \<and> (\<forall>c\<in>set w. \<not> sep c)"
proof (induction s arbitrary: cur)
  case Nil
  then show ?case by auto
next
  case (Cons a s)
  show ?case
  proof (cases "sep a")
    case True
    have "\<forall>w\<in>set (split_acc sep [] s). w \<noteq> [] \<and> (\<forall>c\<in>set w. \<not> sep c)"
      by (rule Cons.IH) simp
    with True Cons.prems show ?thesis by auto
  next
    case False
    with Cons.prems have "\<forall>c\<in>set (cur @ [a]). \<not> sep c" by simp
    from Cons.IH [OF this] False show ?thesis by simp
  qed
qed

lemma split_acc_run:
  "\<forall>c\<in>set w. \<not> sep c \<Longrightarrow> split_acc sep cur (w @ rest) = split_acc sep (cur @ w) rest"
  by (induction w arbitrary: cur) auto

lemma split_acc_join:
  assumes "sep 32"
  shows "\<forall>w\<in>set ws. w \<noteq> [] \<and> (\<forall>c\<in>set w. \<not> sep c) \<Longrightarrow> split_acc sep [] (join [32] ws) = ws"
proof (induction ws)
  case Nil
  then show ?case by simp
next
  case (Cons w ws)
  then have w: "w \<noteq> []" "\<forall>c\<in>set w. \<not> sep c" by simp_all
  show ?case
  proof (cases ws)
    case Nil
    from w(2) have "split_acc sep [] (w @ []) = split_acc sep ([] @ w) []"
      by (rule split_acc_run)
    with w(1) Nil show ?thesis by simp
  next
    case (Cons v va)
    from w(2) have "split_acc sep [] (w @ ([32] @ join [32] ws)) =
        split_acc sep ([] @ w) ([32] @ join [32] ws)"
      by (rule split_acc_run)
    also have "\<dots> = w # split_acc sep [] (join [32] ws)"
      using w(1) assms by simp
    also have "split_acc sep [] (join [32] ws) = ws"
      using Cons.IH Cons.prems by simp
    finally show ?thesis using Cons by simp
  qed
qed


lemma classify_word_once:
  assumes "category_count p w \<le> 1"
  shows "structure_words (classify_word p st w) = structure_words st + {#w#}"
proof -
  consider (none) "w \<notin> time_expressions p" "w \<notin> place_expressions p"
      "\<not> (w \<in> pronouns p \<or> w \<in> nouns p)" "w \<notin> verbs p"
    | (time) "w \<in> time_expressions p" "w \<notin> place_expressions p"
      "\<not> (w \<in> pronouns p \<or> w \<in> nouns p)" "w \<notin> verbs p"
    | (place) "w \<notin> time_expressions p" "w \<in> place_expressions p"
      "\<not> (w \<in> pronouns p \<or> w \<in> nouns p)" "w \<notin> verbs p"
    | (subj) "w \<notin> time_expressions p" "w \<notin> place_expressions p"
      "w \<in> pronouns p \<or> w \<in> nouns p" "w \<notin> verbs p"
    | (verb) "w \<notin> time_expressions p" "w \<notin> place_expressions p"
      "\<not> (w \<in> pronouns p \<or> w \<in> nouns p)" "w \<in> verbs p"
    using assms unfolding category_count_def by (auto split: if_splits)
  then show ?thesis
  proof cases
    case none
    then show ?thesis by (simp add: classify_word_def structure_words_def)
  next
    case time
    then show ?thesis by (simp add: classify_word_def structure_words_def)
  next
    case place
    then show ?thesis by (simp add: classify_word_def structure_words_def)
  next
    case subj
    then show ?thesis by (auto simp: classify_word_def structure_words_def)
  next
    case verb
    then show ?thesis by (simp add: classify_word_def structure_words_def)
  qed
qed

lemma classify_words_once:
  "\<forall>w\<in>set ws. category_count p w \<le> 1 \<Longrightarrow>
   structure_words (foldl (classify_word p) st ws) = structure_words st + mset ws"
  by (induction ws arbitrary: st) (simp_all add: classify_word_once)

lemma mset_ordered_parts: "mset (ordered_parts p st) = structure_words st"
  by (cases "gp_sign_language p") (simp_all add: ordered_parts_def structure_words_def)

text \<open>
  C9. For every sentence whose words each pass at most one of the four tests of the
  analysis (time, place, pronoun or noun, verb), the converted sentence holds every word
  exactly once: the words listed for the sign language are a permutation of the words
  of the sentence, the result is these words joined by single spaces (or the sentence
  itself when it has no word), and reading the words of the result gives them back.
\<close>

theorem word_order_preserves_words:
  assumes "\<forall>w\<in>set (find_words sentence). category_count p w \<le> 1"
  shows "mset (ordered_parts p (analyze_sentence_structure p sentence)) =
           mset (find_words sentence) \<and>
         convert_to_sign_language_word_order p sentence =
           (if find_words sentence = [] then sentence
            else join [32] (ordered_parts p (analyze_sentence_structure p sentence))) \<and>
         find_words (convert_to_sign_language_word_order p sentence) =
           ordered_parts p (analyze_sentence_structure p sentence) \<and>
         mset (find_words (convert_to_sign_language_word_order p sentence)) =
           mset (find_words sentence)"
proof -
  let ?parts = "ordered_parts p (analyze_sentence_structure p sentence)"
  have "structure_words (analyze_sentence_structure p sentence) =
      structure_words empty_structure + mset (find_words sentence)"
    unfolding analyze_sentence_structure_def using assms by (rule classify_words_once)
  then have m: "mset ?parts = mset (find_words sentence)"
    by (simp add: mset_ordered_parts structure_words_def empty_structure_def)
  then have e: "?parts = [] \<longleftrightarrow> find_words sentence = []"
    by (metis mset_zero_iff)
  have c: "convert_to_sign_language_word_order p sentence =
      (if find_words sentence = [] then sentence else join [32] ?parts)"
    using e by (simp add: convert_to_sign_language_word_order_def Let_def)
  have good: "\<forall>w\<in>set ?parts. w \<noteq> [] \<and> (\<forall>c\<in>set w. \<not> word_separator c)"
  proof -
    have "set ?parts = set (find_words sentence)" using m by (rule mset_eq_setD)
    moreover have "\<forall>w\<in>set (find_words sentence). w \<noteq> [] \<and> (\<forall>c\<in>set w. \<not> word_separator c)"
      unfolding find_words_def by (rule split_acc_words) simp
    ultimately show ?thesis by simp
  qed
  have sp: "word_separator 32" by (simp add: word_separator_def py_isspace_def)
  have f: "find_words (convert_to_sign_language_word_order p sentence) = ?parts"
  proof (cases "find_words sentence = []")
    case True
    with c e show ?thesis by simp
  next
    case False
    with c have "convert_to_sign_language_word_order p sentence = join [32] ?parts" by simp
    then show ?thesis
      unfolding find_words_def using split_acc_join [OF sp good] by simp
  qed
  from m c f show ?thesis by simp
qed


text \<open>In the vocabulary of the source no word passes two of the four tests, so the
  hypothesis holds for every sentence given to a new processor.\<close>

lemma initial_vocabulary_disjoint:
  "list_all (\<lambda>w. w \<notin> set initial_place_expressions \<and> w \<notin> set initial_pronouns \<and>
      w \<notin> set initial_nouns \<and> w \<notin> set initial_verbs) initial_time_expressions"
  "list_all (\<lambda>w. w \<notin> set initial_pronouns \<and> w \<notin> set initial_nouns \<and>
      w \<notin> set initial_verbs) initial_place_expressions"
  "list_all (\<lambda>w. w \<notin> set initial_pronouns \<and> w \<notin> set initial_nouns) initial_verbs"
  unfolding initial_time_expressions_def initial_place_expressions_def initial_pronouns_def
    initial_nouns_def initial_verbs_def
  by simp_all

lemma new_processor_category_count: "category_count (new_processor lang) w \<le> 1"
  using initial_vocabulary_disjoint
  unfolding list_all_iff category_count_def new_processor_def
  by auto

theorem word_order_preserves_words_witness:
  "list_all (\<lambda>w. category_count (new_processor CSL) w \<le> 1) (find_words [25105, 32, 26126, 22825, 44, 21435, 32, 23398, 26657, 12290, 20320, 22909]) \<and>
   find_words [25105, 32, 26126, 22825, 44, 21435, 32, 23398, 26657, 12290, 20320, 22909] = [[25105], [26126, 22825], [21435], [23398, 26657], [20320, 22909]] \<and>
   convert_to_sign_language_word_order (new_processor CSL) [25105, 32, 26126, 22825, 44, 21435, 32, 23398, 26657, 12290, 20320, 22909] = [26126, 22825, 32, 23398, 26657, 32, 25105, 32, 21435, 32, 20320, 22909] \<and>
   mset (find_words [26126, 22825, 32, 23398, 26657, 32, 25105, 32, 21435, 32, 20320, 22909]) = mset (find_words [25105, 32, 26126, 22825, 44, 21435, 32, 23398, 26657, 12290, 20320, 22909])"
proof -
  have h: "\<forall>w\<in>set (find_words [25105, 32, 26126, 22825, 44, 21435, 32, 23398, 26657, 12290, 20320, 22909]). category_count (new_processor CSL) w \<le> 1"
    using new_processor_category_count by blast
  have w: "find_words [25105, 32, 26126, 22825, 44, 21435, 32, 23398, 26657, 12290, 20320, 22909] = [[25105], [26126, 22825], [21435], [23398, 26657], [20320, 22909]]"
    by (simp add: find_words_def word_separator_def py_isspace_def)
  have c: "convert_to_sign_language_word_order (new_processor CSL) [25105, 32, 26126, 22825, 44, 21435, 32, 23398, 26657, 12290, 20320, 22909] = [26126, 22825, 32, 23398, 26657, 32, 25105, 32, 21435, 32, 20320, 22909]"
    unfolding convert_to_sign_language_word_order_def analyze_sentence_structure_def w
    by (simp add: classify_word_def new_processor_def empty_structure_def ordered_parts_def
        initial_time_expressions_def initial_place_expressions_def initial_pronouns_def
        initial_nouns_def initial_verbs_def)
  note word_order_preserves_words [OF h, THEN conjunct2, THEN conjunct2, THEN conjunct2]
  then have m: "mset (find_words [26126, 22825, 32, 23398, 26657, 32, 25105, 32, 21435, 32, 20320, 22909]) = mset (find_words [25105, 32, 26126, 22825, 44, 21435, 32, 23398, 26657, 12290, 20320, 22909])"
    unfolding c .
  from h have h': "list_all (\<lambda>w. category_count (new_processor CSL) w \<le> 1) (find_words [25105, 32, 26126, 22825, 44, 21435, 32, 23398, 26657, 12290, 20320, 22909])"
    by (simp only: list_all_iff)
  from h' w c m show ?thesis by (intro conjI)
qed

subsection \<open>Speaker verification\<close>

text \<open>
  C10. For a speaker id without a profile, or whose profile has no embedding,
  \<open>verify_speaker\<close> returns \<open>(False, 0.0)\<close>, whatever the query, the threshold and the
  numerics. Otherwise it divides the query by its norm when the norm is greater than 0
  (and leaves it when not), takes the product with the stored embedding as the
  similarity, and returns the similarity with the verdict \<open>similarity >= threshold\<close>. An
  exception of any call in the \<open>try\<close> block is logged and \<open>(False, 0.0)\<close> is returned; the
  method raises only if that logging raises.
\<close>

theorem verify_speaker_spec:
  "(speakers_index db sid = None \<longrightarrow>
      verify_speaker lg np db sid q thr = Inr (False, Fin 0)) \<and>
   (speakers_index db sid = Some p \<and> sp_embedding p = None \<longrightarrow>
      verify_speaker lg np db sid q thr = Inr (False, Fin 0)) \<and>
   (speakers_index db sid = Some p \<and> sp_embedding p = Some emb \<and>
    np_linalg_norm np q = Inr n \<and> f_lt (Fin 0) n \<and> np_divide np q n = Inr u \<and>
    np_dot np u emb = Inr s \<and> log_info lg (verified_message np sid s (f_le thr s)) = None \<longrightarrow>
      verify_speaker lg np db sid q thr = Inr (f_le thr s, s)) \<and>
   (speakers_index db sid = Some p \<and> sp_embedding p = Some emb \<and>
    np_linalg_norm np q = Inr n \<and> \<not> f_lt (Fin 0) n \<and>
    np_dot np q emb = Inr s \<and> log_info lg (verified_message np sid s (f_le thr s)) = None \<longrightarrow>
      verify_speaker lg np db sid q thr = Inr (f_le thr s, s)) \<and>
   (speakers_index db sid = Some p \<and> sp_embedding p = Some emb \<and>
    np_linalg_norm np q = Inl e \<longrightarrow>
      verify_speaker_try lg np db sid q thr = Inl e) \<and>
   (speakers_index db sid = Some p \<and> sp_embedding p = Some emb \<and>
    np_linalg_norm np q = Inr n \<and> f_lt (Fin 0) n \<and> np_divide np q n = Inl e \<longrightarrow>
      verify_speaker_try lg np db sid q thr = Inl e) \<and>
   (speakers_index db sid = Some p \<and> sp_embedding p = Some emb \<and>
    np_linalg_norm np q = Inr n \<and> f_lt (Fin 0) n \<and> np_divide np q n = Inr u \<and>
    np_dot np u emb = Inl e \<longrightarrow>
      verify_speaker_try lg np db sid q thr = Inl e) \<and>
   (speakers_index db sid = Some p \<and> sp_embedding p = Some emb \<and>
    np_linalg_norm np q = Inr n \<and> \<not> f_lt (Fin 0) n \<and> np_dot np q emb = Inl e \<longrightarrow>
      verify_speaker_try lg np db sid q thr = Inl e) \<and>
   (speakers_index db sid = Some p \<and> sp_embedding p = Some emb \<and>
    np_linalg_norm np q = Inr n \<and> f_lt (Fin 0) n \<and> np_divide np q n = Inr u \<and>
    np_dot np u emb = Inr s \<and>
    log_info lg (verified_message np sid s (f_le thr s)) = Some e \<longrightarrow>
      verify_speaker_try lg np db sid q thr = Inl e) \<and>
   (speakers_index db sid = Some p \<and> sp_embedding p = Some emb \<and>
    np_linalg_norm np q = Inr n \<and> \<not> f_lt (Fin 0) n \<and> np_dot np q emb = Inr s \<and>
    log_info lg (verified_message np sid s (f_le thr s)) = Some e \<longrightarrow>
      verify_speaker_try lg np db sid q thr = Inl e) \<and>
   (verify_speaker_try lg np db sid q thr = Inl e \<and>
    log_error lg (verify_failed_prefix @ exn_str e) = None \<longrightarrow>
      verify_speaker lg np db sid q thr = Inr (False, Fin 0)) \<and>
   (verify_speaker_try lg np db sid q thr = Inl e \<and>
    log_error lg (verify_failed_prefix @ exn_str e) = Some e2 \<longrightarrow>
      verify_speaker lg np db sid q thr = Inl e2)"
proof (intro conjI impI)
  assume "speakers_index db sid = None"
  then show "verify_speaker lg np db sid q thr = Inr (False, Fin 0)"
    by (simp add: verify_speaker_def verify_speaker_try_def)
next
  assume "speakers_index db sid = Some p \<and> sp_embedding p = None"
  then show "verify_speaker lg np db sid q thr = Inr (False, Fin 0)"
    by (simp add: verify_speaker_def verify_speaker_try_def)
next
  assume "speakers_index db sid = Some p \<and> sp_embedding p = Some emb \<and>
    np_linalg_norm np q = Inr n \<and> f_lt (Fin 0) n \<and> np_divide np q n = Inr u \<and>
    np_dot np u emb = Inr s \<and> log_info lg (verified_message np sid s (f_le thr s)) = None"
  then show "verify_speaker lg np db sid q thr = Inr (f_le thr s, s)"
    by (simp add: verify_speaker_def verify_speaker_try_def)
next
  assume "speakers_index db sid = Some p \<and> sp_embedding p = Some emb \<and>
    np_linalg_norm np q = Inr n \<and> \<not> f_lt (Fin 0) n \<and>
    np_dot np q emb = Inr s \<and> log_info lg (verified_message np sid s (f_le thr s)) = None"
  then show "verify_speaker lg np db sid q thr = Inr (f_le thr s, s)"
    by (simp add: verify_speaker_def verify_speaker_try_def)
next
  assume "speakers_index db sid = Some p \<and> sp_embedding p = Some emb \<and>
    np_linalg_norm np q = Inl e"
  then show "verify_speaker_try lg np db sid q thr = Inl e"
    by (simp add: verify_speaker_try_def)
next
  assume "speakers_index db sid = Some p \<and> sp_embedding p = Some emb \<and>
    np_linalg_norm np q = Inr n \<and> f_lt (Fin 0) n \<and> np_divide np q n = Inl e"
  then show "verify_speaker_try lg np db sid q thr = Inl e"
    by (simp add: verify_speaker_try_def)
next
  assume "speakers_index db sid = Some p \<and> sp_embedding p = Some emb \<and>
    np_linalg_norm np q = Inr n \<and> f_lt (Fin 0) n \<and> np_divide np q n = Inr u \<and>
    np_dot np u emb = Inl e"
  then show "verify_speaker_try lg np db sid q thr = Inl e"
    by (simp add: verify_speaker_try_def)
next
  assume "speakers_index db sid = Some p \<and> sp_embedding p = Some emb \<and>
    np_linalg_norm np q = Inr n \<and> \<not> f_lt (Fin 0) n \<and> np_dot np q emb = Inl e"
  then show "verify_speaker_try lg np db sid q thr = Inl e"
    by (simp add: verify_speaker_try_def)
next
  assume "speakers_index db sid = Some p \<and> sp_embedding p = Some emb \<and>
    np_linalg_norm np q = Inr n \<and> f_lt (Fin 0) n \<and> np_divide np q n = Inr u \<and>
    np_dot np u emb = Inr s \<and>
    log_info lg (verified_message np sid s (f_le thr s)) = Some e"
  then show "verify_speaker_try lg np db sid q thr = Inl e"
    by (simp add: verify_speaker_try_def)
next
  assume "speakers_index db sid = Some p \<and> sp_embedding p = Some emb \<and>
    np_linalg_norm np q = Inr n \<and> \<not> f_lt (Fin 0) n \<and> np_dot np q emb = Inr s \<and>
    log_info lg (verified_message np sid s (f_le thr s)) = Some e"
  then show "verify_speaker_try lg np db sid q thr = Inl e"
    by (simp add: verify_speaker_try_def)
next
  assume "verify_speaker_try lg np db sid q thr = Inl e \<and>
    log_error lg (verify_failed_prefix @ exn_str e) = None"
  then show "verify_speaker lg np db sid q thr = Inr (False, Fin 0)"
    by (simp add: verify_speaker_def)
next
  assume "verify_speaker_try lg np db sid q thr = Inl e \<and>
    log_error lg (verify_failed_prefix @ exn_str e) = Some e2"
  then show "verify_speaker lg np db sid q thr = Inl e2"
    by (simp add: verify_speaker_def)
qed

lemma two_speakers_index:
  "speakers_index two_speakers [97] =
     Some \<lparr>sp_id = [97], sp_name = [65], sp_embedding = Some [Fin 1, Fin 0]\<rparr>"
  "speakers_index two_speakers [98] =
     Some \<lparr>sp_id = [98], sp_name = [66], sp_embedding = None\<rparr>"
  "speakers_index two_speakers [99] = None"
  by (simp_all add: two_speakers_def)

lemma example_norm_values:
  "np_linalg_norm example_vectors [Fin 3, Fin 4] = Inr (Fin 5)"
  "np_linalg_norm example_vectors [Fin 1, Fin 0] = Inr (Fin 1)"
  "np_linalg_norm example_vectors [Fin 1, Fin 0, Fin 0] = Inr (Fin 1)"
  "np_linalg_norm example_vectors [Fin 0, Fin 0] = Inr (Fin 0)"
  "np_linalg_norm example_vectors [Fin 0] = Inr (Fin 0)"
proof -
  have a: "sqrt 25 = 5" by (rule real_sqrt_unique) (simp_all add: power2_eq_square)
  show "np_linalg_norm example_vectors [Fin 3, Fin 4] = Inr (Fin 5)"
    by (simp add: example_vectors_def unrounded_dot_def to_fp_def a)
  show "np_linalg_norm example_vectors [Fin 1, Fin 0] = Inr (Fin 1)"
    by (simp add: example_vectors_def unrounded_dot_def to_fp_def)
  show "np_linalg_norm example_vectors [Fin 1, Fin 0, Fin 0] = Inr (Fin 1)"
    by (simp add: example_vectors_def unrounded_dot_def to_fp_def)
  show "np_linalg_norm example_vectors [Fin 0, Fin 0] = Inr (Fin 0)"
    by (simp add: example_vectors_def unrounded_dot_def to_fp_def)
  show "np_linalg_norm example_vectors [Fin 0] = Inr (Fin 0)"
    by (simp add: example_vectors_def unrounded_dot_def to_fp_def)
qed

lemma example_divide_dot_values:
  "np_divide example_vectors [Fin 3, Fin 4] (Fin 5) = Inr [Fin (3/5), Fin (4/5)]"
  "np_divide example_vectors [Fin 1, Fin 0] (Fin 1) = Inr [Fin 1, Fin 0]"
  "np_divide example_vectors [Fin 1, Fin 0, Fin 0] (Fin 1) = Inr [Fin 1, Fin 0, Fin 0]"
  "np_dot example_vectors [Fin (3/5), Fin (4/5)] [Fin 1, Fin 0] = Inr (Fin (3/5))"
  "np_dot example_vectors [Fin 1, Fin 0] [Fin 1, Fin 0] = Inr (Fin 1)"
  "np_dot example_vectors [Fin 0, Fin 0] [Fin 1, Fin 0] = Inr (Fin 0)"
  "np_dot example_vectors [Fin 1, Fin 0, Fin 0] [Fin 1, Fin 0] =
     Inl (PyError [86, 97, 108, 117, 101, 69, 114, 114, 111, 114] [])"
  "np_dot example_vectors [Fin 0] [Fin 1, Fin 0] =
     Inl (PyError [86, 97, 108, 117, 101, 69, 114, 114, 111, 114] [])"
  by (simp_all add: example_vectors_def example_dot_def unrounded_dot_def to_fp_def)

lemma f_le_values:
  "f_le (Fin (1/2)) (Fin (3/5))" "f_le (Fin (1/2)) (Fin 1)" "\<not> f_le (Fin (1/2)) (Fin 0)"
  by (simp_all add: f_le_def)

theorem verify_speaker_spec_witness:
  "speakers_index two_speakers [99] = None \<and>
   verify_speaker (logger_with None None) example_vectors two_speakers [99] [Fin 3, Fin 4]
       (Fin (1/2)) = Inr (False, Fin 0) \<and>
   verify_speaker (logger_with None None) example_vectors two_speakers [98] [Fin 3, Fin 4]
       (Fin (1/2)) = Inr (False, Fin 0) \<and>
   verify_speaker (logger_with None None) example_vectors two_speakers [97] [Fin 3, Fin 4]
       (Fin (1/2)) = Inr (True, Fin (3/5)) \<and>
   verify_speaker (logger_with None None) example_vectors two_speakers [97] [Fin 0, Fin 0]
       (Fin (1/2)) = Inr (False, Fin 0) \<and>
   verify_speaker (logger_with None None)
       (example_vectors \<lparr>np_linalg_norm := \<lambda>v. Inl runtime_error_down\<rparr>) two_speakers [97]
       [Fin 3, Fin 4] (Fin (1/2)) = Inr (False, Fin 0) \<and>
   verify_speaker (logger_with None None)
       (example_vectors \<lparr>np_divide := \<lambda>v n. Inl runtime_error_down\<rparr>) two_speakers [97]
       [Fin 3, Fin 4] (Fin (1/2)) = Inr (False, Fin 0) \<and>
   verify_speaker (logger_with None None) example_vectors two_speakers [97]
       [Fin 1, Fin 0, Fin 0] (Fin (1/2)) = Inr (False, Fin 0) \<and>
   verify_speaker (logger_with None None) example_vectors two_speakers [97] [Fin 0]
       (Fin (1/2)) = Inr (False, Fin 0) \<and>
   verify_speaker (logger_with (Some runtime_error_down) None) example_vectors two_speakers
       [97] [Fin 3, Fin 4] (Fin (1/2)) = Inr (False, Fin 0) \<and>
   verify_speaker (logger_with (Some runtime_error_down) None) example_vectors two_speakers
       [97] [Fin 0, Fin 0] (Fin (1/2)) = Inr (False, Fin 0) \<and>
   verify_speaker (logger_with None (Some runtime_error_down)) example_vectors two_speakers
       [97] [Fin 0] (Fin (1/2)) = Inl runtime_error_down"
proof -
  let ?quiet = "logger_with None None"
  let ?noisy = "logger_with (Some runtime_error_down) None"
  let ?half = "Fin (1/2)"
  let ?value_error = "PyError [86, 97, 108, 117, 101, 69, 114, 114, 111, 114] []"
  note ex = two_speakers_index example_norm_values example_divide_dot_values f_le_values
    logger_with_simps
  have w1: "verify_speaker ?quiet example_vectors two_speakers [99] [Fin 3, Fin 4] ?half =
      Inr (False, Fin 0)"
    by (rule verify_speaker_spec [THEN conjunct1, THEN mp]) (simp add: ex)
  have w2: "verify_speaker ?quiet example_vectors two_speakers [98] [Fin 3, Fin 4] ?half =
      Inr (False, Fin 0)"
    by (rule verify_speaker_spec [where p = "\<lparr>sp_id = [98], sp_name = [66], sp_embedding = None\<rparr>",
          THEN conjunct2, THEN conjunct1, THEN mp]) (simp add: ex)
  have "verify_speaker ?quiet example_vectors two_speakers [97] [Fin 3, Fin 4] ?half =
      Inr (f_le ?half (Fin (3/5)), Fin (3/5))"
    by (rule verify_speaker_spec [where p = "\<lparr>sp_id = [97], sp_name = [65], sp_embedding = Some [Fin 1, Fin 0]\<rparr>" and emb = "[Fin 1, Fin 0]" and n = "Fin 5"
          and u = "[Fin (3/5), Fin (4/5)]",
          THEN conjunct2, THEN conjunct2, THEN conjunct1, THEN mp]) (simp add: ex)
  then have w3: "verify_speaker ?quiet example_vectors two_speakers [97] [Fin 3, Fin 4] ?half =
      Inr (True, Fin (3/5))"
    by (simp add: ex)
  have "verify_speaker ?quiet example_vectors two_speakers [97] [Fin 0, Fin 0] ?half =
      Inr (f_le ?half (Fin 0), Fin 0)"
    by (rule verify_speaker_spec [where p = "\<lparr>sp_id = [97], sp_name = [65], sp_embedding = Some [Fin 1, Fin 0]\<rparr>" and emb = "[Fin 1, Fin 0]" and n = "Fin 0",
          THEN conjunct2, THEN conjunct2, THEN conjunct2, THEN conjunct1, THEN mp]) (simp add: ex)
  then have w4: "verify_speaker ?quiet example_vectors two_speakers [97] [Fin 0, Fin 0] ?half =
      Inr (False, Fin 0)"
    by (simp add: ex)
  have t5: "verify_speaker_try ?quiet
      (example_vectors \<lparr>np_linalg_norm := \<lambda>v. Inl runtime_error_down\<rparr>) two_speakers [97]
      [Fin 3, Fin 4] ?half = Inl runtime_error_down"
    by (rule verify_speaker_spec [where p = "\<lparr>sp_id = [97], sp_name = [65], sp_embedding = Some [Fin 1, Fin 0]\<rparr>" and emb = "[Fin 1, Fin 0]",
          THEN conjunct2, THEN conjunct2, THEN conjunct2, THEN conjunct2, THEN conjunct1, THEN mp]) (simp add: ex)
  have w5: "verify_speaker ?quiet
      (example_vectors \<lparr>np_linalg_norm := \<lambda>v. Inl runtime_error_down\<rparr>) two_speakers [97]
      [Fin 3, Fin 4] ?half = Inr (False, Fin 0)"
    by (rule verify_speaker_spec [where e = runtime_error_down,
          THEN conjunct2, THEN conjunct2, THEN conjunct2, THEN conjunct2, THEN conjunct2, THEN conjunct2, THEN conjunct2, THEN conjunct2, THEN conjunct2, THEN conjunct2, THEN conjunct1, THEN mp]) (simp add: t5 ex)
  have t6: "verify_speaker_try ?quiet
      (example_vectors \<lparr>np_divide := \<lambda>v n. Inl runtime_error_down\<rparr>) two_speakers [97]
      [Fin 3, Fin 4] ?half = Inl runtime_error_down"
    by (rule verify_speaker_spec [where p = "\<lparr>sp_id = [97], sp_name = [65], sp_embedding = Some [Fin 1, Fin 0]\<rparr>" and emb = "[Fin 1, Fin 0]" and n = "Fin 5",
          THEN conjunct2, THEN conjunct2, THEN conjunct2, THEN conjunct2, THEN conjunct2, THEN conjunct1, THEN mp]) (simp add: ex)
  have w6: "verify_speaker ?quiet
      (example_vectors \<lparr>np_divide := \<lambda>v n. Inl runtime_error_down\<rparr>) two_speakers [97]
      [Fin 3, Fin 4] ?half = Inr (False, Fin 0)"
    by (rule verify_speaker_spec [where e = runtime_error_down,
          THEN conjunct2, THEN conjunct2, THEN conjunct2, THEN conjunct2, THEN conjunct2, THEN conjunct2, THEN conjunct2, THEN conjunct2, THEN conjunct2, THEN conjunct2, THEN conjunct1, THEN mp]) (simp add: t6 ex)
  have t7: "verify_speaker_try ?quiet example_vectors two_speakers [97]
      [Fin 1, Fin 0, Fin 0] ?half = Inl ?value_error"
    by (rule verify_speaker_spec [where p = "\<lparr>sp_id = [97], sp_name = [65], sp_embedding = Some [Fin 1, Fin 0]\<rparr>" and emb = "[Fin 1, Fin 0]" and n = "Fin 1"
          and u = "[Fin 1, Fin 0, Fin 0]",
          THEN conjunct2, THEN conjunct2, THEN conjunct2, THEN conjunct2, THEN conjunct2, THEN conjunct2, THEN conjunct1, THEN mp]) (simp add: ex)
  have w7: "verify_speaker ?quiet example_vectors two_speakers [97]
      [Fin 1, Fin 0, Fin 0] ?half = Inr (False, Fin 0)"
    by (rule verify_speaker_spec [where e = "PyError [86, 97, 108, 117, 101, 69, 114, 114, 111, 114] []",
          THEN conjunct2, THEN conjunct2, THEN conjunct2, THEN conjunct2, THEN conjunct2, THEN conjunct2, THEN conjunct2, THEN conjunct2, THEN conjunct2, THEN conjunct2, THEN conjunct1, THEN mp]) (simp add: t7 ex)
  have t8: "verify_speaker_try lg example_vectors two_speakers [97] [Fin 0] ?half =
      Inl ?value_error" for lg
    by (rule verify_speaker_spec [where p = "\<lparr>sp_id = [97], sp_name = [65], sp_embedding = Some [Fin 1, Fin 0]\<rparr>" and emb = "[Fin 1, Fin 0]" and n = "Fin 0",
          THEN conjunct2, THEN conjunct2, THEN conjunct2, THEN conjunct2, THEN conjunct2, THEN conjunct2, THEN conjunct2, THEN conjunct1, THEN mp]) (simp add: ex)
  have w8: "verify_speaker ?quiet example_vectors two_speakers [97] [Fin 0] ?half =
      Inr (False, Fin 0)"
    by (rule verify_speaker_spec [where e = "PyError [86, 97, 108, 117, 101, 69, 114, 114, 111, 114] []",
          THEN conjunct2, THEN conjunct2, THEN conjunct2, THEN conjunct2, THEN conjunct2, THEN conjunct2, THEN conjunct2, THEN conjunct2, THEN conjunct2, THEN conjunct2, THEN conjunct1, THEN mp]) (simp add: t8 ex)
  have t9: "verify_speaker_try ?noisy example_vectors two_speakers [97] [Fin 3, Fin 4] ?half =
      Inl runtime_error_down"
    by (rule verify_speaker_spec [where p = "\<lparr>sp_id = [97], sp_name = [65], sp_embedding = Some [Fin 1, Fin 0]\<rparr>" and emb = "[Fin 1, Fin 0]" and n = "Fin 5"
          and u = "[Fin (3/5), Fin (4/5)]" and s = "Fin (3/5)",
          THEN conjunct2, THEN conjunct2, THEN conjunct2, THEN conjunct2, THEN conjunct2, THEN conjunct2, THEN conjunct2, THEN conjunct2, THEN conjunct1, THEN mp]) (simp add: ex)
  have w9: "verify_speaker ?noisy example_vectors two_speakers [97] [Fin 3, Fin 4] ?half =
      Inr (False, Fin 0)"
    by (rule verify_speaker_spec [where e = runtime_error_down,
          THEN conjunct2, THEN conjunct2, THEN conjunct2, THEN conjunct2, THEN conjunct2, THEN conjunct2, THEN conjunct2, THEN conjunct2, THEN conjunct2, THEN conjunct2, THEN conjunct1, THEN mp]) (simp add: t9 ex)
  have t10: "verify_speaker_try ?noisy example_vectors two_speakers [97] [Fin 0, Fin 0] ?half =
      Inl runtime_error_down"
    by (rule verify_speaker_spec [where p = "\<lparr>sp_id = [97], sp_name = [65], sp_embedding = Some [Fin 1, Fin 0]\<rparr>" and emb = "[Fin 1, Fin 0]" and n = "Fin 0" and s = "Fin 0",
          THEN conjunct2, THEN conjunct2, THEN conjunct2, THEN conjunct2, THEN conjunct2, THEN conjunct2, THEN conjunct2, THEN conjunct2, THEN conjunct2, THEN conjunct1, THEN mp]) (simp add: ex)
  have w10: "verify_speaker ?noisy example_vectors two_speakers [97] [Fin 0, Fin 0] ?half =
      Inr (False, Fin 0)"
    by (rule verify_speaker_spec [where e = runtime_error_down,
          THEN conjunct2, THEN conjunct2, THEN conjunct2, THEN conjunct2, THEN conjunct2, THEN conjunct2, THEN conjunct2, THEN conjunct2, THEN conjunct2, THEN conjunct2, THEN conjunct1, THEN mp]) (simp add: t10 ex)
  have w12: "verify_speaker (logger_with None (Some runtime_error_down)) example_vectors
      two_speakers [97] [Fin 0] ?half = Inl runtime_error_down"
    by (rule verify_speaker_spec [where e = "PyError [86, 97, 108, 117, 101, 69, 114, 114, 111, 114] []",
          THEN conjunct2, THEN conjunct2, THEN conjunct2, THEN conjunct2, THEN conjunct2, THEN conjunct2, THEN conjunct2, THEN conjunct2, THEN conjunct2, THEN conjunct2, THEN conjunct2, THEN mp]) (simp add: t8 ex)
  from ex(3) w1 w2 w3 w4 w5 w6 w7 w8 w9 w10 w12 show ?thesis by (intro conjI)
qed

text \<open>
  C10 as stated fails in floating-point arithmetic: the similarity is not the same for a
  query and a positive multiple of it. The square of \<open>2 ^ 600\<close> is beyond the range of the
  64-bit format, so the norm of \<open>[2 ^ 600, 0]\<close> is infinite, the division gives \<open>[0, 0]\<close>, and
  the similarity with the embedding \<open>[1, 0]\<close> is 0 where that of \<open>[1, 0]\<close> is 1.
\<close>

theorem verify_speaker_scaling_counterexample:
  "verify_speaker (logger_with None None) example_vectors two_speakers [97] [Fin 1, Fin 0]
       (Fin (1/2)) = Inr (True, Fin 1) \<and>
   verify_speaker (logger_with None None) example_vectors two_speakers [97]
       (map (unrounded_times (Fin (2 ^ 600))) [Fin 1, Fin 0]) (Fin (1/2)) =
     Inr (False, Fin 0) \<and>
   (0::real) < 2 ^ 600"
  by (simp add: verify_speaker_def verify_speaker_try_def two_speakers_index
      example_vectors_def example_dot_def unrounded_dot_def to_fp_def f_le_def
      logger_with_simps)

end
